theory Spec2Isabelle
  imports Complex_Main "HOL-Library.Multiset" "HOL-Library.Char_ord" "HOL-Library.List_Lexorder"
begin

section \<open>The trade-query service of \<^verbatim>\<open>src/main.py\<close>\<close>

text \<open>
  The development embeds the record store (\<^verbatim>\<open>TradeDB\<close>), the data model
  (\<^verbatim>\<open>TradeDetails\<close>, \<^verbatim>\<open>Trade\<close>) and the two endpoints
  (\<^verbatim>\<open>list_trades\<close>, \<^verbatim>\<open>get_trade_by_id\<close>) of \<^verbatim>\<open>src/main.py\<close>.

  Conventions of the embedding:
  \<^item> a Python \<^verbatim>\<open>str\<close> is a \<open>string\<close>, a sequence of characters with code
    points below 256; \<^verbatim>\<open>Optional[str]\<close> is \<open>string option\<close>;
  \<^item> a \<^verbatim>\<open>datetime\<close> is either naive (a reading of the wall clock) or aware (an
    instant), and Python does not order a naive against an aware one;
  \<^item> a finite \<^verbatim>\<open>float\<close> is the \<open>real\<close> it denotes: the code only compares these
    values (NaN prices are outside the model);
  \<^item> Python's unbounded \<^verbatim>\<open>int\<close> is \<open>int\<close>;
  \<^item> an exception is a value \<open>Inl e\<close> of a sum type, a normal return is \<open>Inr v\<close>;
  \<^item> the process-wide store \<^verbatim>\<open>trade_db\<close> is passed explicitly, and an operation
    that can write to it returns the store it leaves behind;
  \<^item> the base class of the two model classes (\<^verbatim>\<open>BaseModel\<close>, imported in line 3) is
    not part of the repository: what it adds to a \<^verbatim>\<open>Trade\<close> object is a parameter of
    the sort.
\<close>

subsection \<open>Data model (lines 100--113)\<close>

text \<open>A \<^verbatim>\<open>datetime\<close> without time zone holds a reading of the wall clock, one with a
  time zone denotes an instant; both are counted in microseconds.\<close>

datatype datetime = Naive int | Aware int

record TradeDetails =
  buySellIndicator :: string
  price :: real
  quantity :: int

record Trade =
  asset_class :: "string option"
  counterparty :: "string option"
  instrument_id :: string
  instrument_name :: string
  trade_date_time :: datetime
  trade_details :: TradeDetails
  trade_id :: "string option"
  trader :: string

text \<open>The exceptions the code can raise: two faults of the Python runtime and the
  \<^verbatim>\<open>HTTPException\<close> of the get-by-id endpoint (with its status code).\<close>

datatype py_error =
    AttributeError string  \<comment> \<open>the object has no attribute of this name\<close>
  | TypeError              \<comment> \<open>an operator applied to operands it does not support\<close>
  | HTTPException nat

subsection \<open>Record store (lines 14--40)\<close>

record TradeDB =
  trades :: "Trade list"

definition TradeDB_init :: TradeDB where
  "TradeDB_init = \<lparr>trades = []\<rparr>"

text \<open>\<^verbatim>\<open>self.trades.append(trade)\<close>\<close>

definition add_trade :: "TradeDB \<Rightarrow> Trade \<Rightarrow> TradeDB" where
  "add_trade db trade = db\<lparr>trades := trades db @ [trade]\<rparr>"

text \<open>The seeding loop of lines 229--230: \<^verbatim>\<open>for trade in random_trades: trade_db.add_trade(trade)\<close>.\<close>

fun add_trades :: "TradeDB \<Rightarrow> Trade list \<Rightarrow> TradeDB" where
  "add_trades db [] = db"
| "add_trades db (trade # rest) = add_trades (add_trade db trade) rest"

text \<open>\<^verbatim>\<open>TradeDB.get_trade_by_id\<close>: the first trade whose id equals the argument,
  \<^verbatim>\<open>None\<close> when the loop ends without one. The argument is compared with an
  optional field, so it is an optional string itself.\<close>

fun find_trade :: "Trade list \<Rightarrow> string option \<Rightarrow> Trade option" where
  "find_trade [] tid = None"
| "find_trade (trade # rest) tid =
     (if trade_id trade = tid then Some trade else find_trade rest tid)"

definition TradeDB_get_trade_by_id :: "TradeDB \<Rightarrow> string option \<Rightarrow> Trade option" where
  "TradeDB_get_trade_by_id db tid = find_trade (trades db) tid"

text \<open>The endpoint of lines 281--287. A \<^verbatim>\<open>Trade\<close> object is truthy (the model class
  defines neither \<^verbatim>\<open>__bool__\<close> nor \<^verbatim>\<open>__len__\<close>), so \<^verbatim>\<open>if trade\<close> tests for
  \<^verbatim>\<open>None\<close>. The path parameter is a \<^verbatim>\<open>str\<close>.\<close>

definition get_trade_by_id :: "TradeDB \<Rightarrow> string \<Rightarrow> py_error + Trade" where
  "get_trade_by_id db tid =
     (case TradeDB_get_trade_by_id db (Some tid) of
        Some trade \<Rightarrow> Inr trade
      | None \<Rightarrow> Inl (HTTPException 404))"

subsection \<open>Strings\<close>

text \<open>\<^verbatim>\<open>str.lower()\<close> on the characters below 256: the letters \<^verbatim>\<open>A\<close>--\<^verbatim>\<open>Z\<close> and
  the accented capitals \<^verbatim>\<open>U+00C0\<close>--\<^verbatim>\<open>U+00DE\<close> (without the sign \<^verbatim>\<open>U+00D7\<close>) move up
  by 32, every other character is kept.\<close>

definition upper_case :: "char list" where
  "upper_case =
     ''ABCDEFGHIJKLMNOPQRSTUVWXYZ'' @
     [CHR 0xC0, CHR 0xC1, CHR 0xC2, CHR 0xC3, CHR 0xC4, CHR 0xC5, CHR 0xC6, CHR 0xC7,
      CHR 0xC8, CHR 0xC9, CHR 0xCA, CHR 0xCB, CHR 0xCC, CHR 0xCD, CHR 0xCE, CHR 0xCF,
      CHR 0xD0, CHR 0xD1, CHR 0xD2, CHR 0xD3, CHR 0xD4, CHR 0xD5, CHR 0xD6,
      CHR 0xD8, CHR 0xD9, CHR 0xDA, CHR 0xDB, CHR 0xDC, CHR 0xDD, CHR 0xDE]"

definition lower_case :: "char list" where
  "lower_case =
     ''abcdefghijklmnopqrstuvwxyz'' @
     [CHR 0xE0, CHR 0xE1, CHR 0xE2, CHR 0xE3, CHR 0xE4, CHR 0xE5, CHR 0xE6, CHR 0xE7,
      CHR 0xE8, CHR 0xE9, CHR 0xEA, CHR 0xEB, CHR 0xEC, CHR 0xED, CHR 0xEE, CHR 0xEF,
      CHR 0xF0, CHR 0xF1, CHR 0xF2, CHR 0xF3, CHR 0xF4, CHR 0xF5, CHR 0xF6,
      CHR 0xF8, CHR 0xF9, CHR 0xFA, CHR 0xFB, CHR 0xFC, CHR 0xFD, CHR 0xFE]"

definition char_lower :: "char \<Rightarrow> char" where
  "char_lower c = (case map_of (zip upper_case lower_case) c of Some d \<Rightarrow> d | None \<Rightarrow> c)"

definition lower :: "string \<Rightarrow> string" where
  "lower s = map char_lower s"

text \<open>\<^verbatim>\<open>b.startswith(a)\<close> and the substring test \<^verbatim>\<open>a in b\<close> on two strings.\<close>

fun startswith :: "string \<Rightarrow> string \<Rightarrow> bool" where
  "startswith b [] = True"
| "startswith [] (c # a) = False"
| "startswith (d # b) (c # a) = (d = c \<and> startswith b a)"

fun str_in :: "string \<Rightarrow> string \<Rightarrow> bool" where
  "str_in a [] = (a = [])"
| "str_in a (d # b) = (startswith (d # b) a \<or> str_in a b)"

text \<open>\<^verbatim>\<open>field.lstrip("-")\<close> removes every leading dash.\<close>

definition lstrip_dash :: "string \<Rightarrow> string" where
  "lstrip_dash field = dropWhile (\<lambda>c. c = CHR ''-'') field"

subsection \<open>Search (lines 42--62)\<close>

text \<open>\<^verbatim>\<open>trade.counterparty.lower()\<close> on an optional field: \<^verbatim>\<open>None\<close> has no
  attribute \<^verbatim>\<open>lower\<close>.\<close>

definition opt_lower :: "string option \<Rightarrow> py_error + string" where
  "opt_lower v = (case v of None \<Rightarrow> Inl (AttributeError ''lower'') | Some s \<Rightarrow> Inr (lower s))"

text \<open>The condition of lines 55--60. Python's \<^verbatim>\<open>or\<close> evaluates its operands from
  the left and stops at the first true one, so the counterparty is only touched when
  neither the instrument id nor the instrument name matched.\<close>

definition search_cond :: "string \<Rightarrow> Trade \<Rightarrow> py_error + bool" where
  "search_cond query_lower trade =
     (if str_in query_lower (lower (instrument_id trade)) then Inr True
      else if str_in query_lower (lower (instrument_name trade)) then Inr True
      else (case opt_lower (counterparty trade) of
              Inl e \<Rightarrow> Inl e
            | Inr c \<Rightarrow>
                if str_in query_lower c then Inr True
                else Inr (str_in query_lower (lower (trader trade)))))"

text \<open>The loop shape shared by \<^verbatim>\<open>search_trades\<close> and \<^verbatim>\<open>filter_trades\<close>:
  \<^verbatim>\<open>for trade in self.trades: if cond(trade): result.append(trade)\<close>, where the
  condition may raise, which ends the loop and the call.\<close>

fun collect :: "(Trade \<Rightarrow> py_error + bool) \<Rightarrow> Trade list \<Rightarrow> Trade list \<Rightarrow> py_error + Trade list" where
  "collect cond [] result = Inr result"
| "collect cond (trade # rest) result =
     (case cond trade of
        Inl e \<Rightarrow> Inl e
      | Inr b \<Rightarrow> collect cond rest (if b then result @ [trade] else result))"

definition search_trades :: "TradeDB \<Rightarrow> string \<Rightarrow> py_error + Trade list" where
  "search_trades db query = collect (search_cond (lower query)) (trades db) []"

subsection \<open>Filter (lines 64--98)\<close>

text \<open>The docstring announces a list of strings for \<^verbatim>\<open>asset_classes\<close>; the endpoint
  passes the query parameter, a single string. \<^verbatim>\<open>x in asset_classes\<close> is list
  membership in the first case and the substring test in the second, where a left operand
  \<^verbatim>\<open>None\<close> is a \<^verbatim>\<open>TypeError\<close>.\<close>

datatype asset_classes_arg = AcList "string list" | AcStr string

definition asset_class_in :: "string option \<Rightarrow> asset_classes_arg \<Rightarrow> py_error + bool" where
  "asset_class_in v arg =
     (case arg of
        AcList l \<Rightarrow> Inr (case v of None \<Rightarrow> False | Some s \<Rightarrow> s \<in> set l)
      | AcStr s \<Rightarrow> (case v of None \<Rightarrow> Inl TypeError | Some a \<Rightarrow> Inr (str_in a s)))"

text \<open>Python's \<^verbatim>\<open>>=\<close> and \<^verbatim>\<open><=\<close> on two datetimes: a naive and an aware one do
  not compare.\<close>

fun datetime_ge :: "datetime \<Rightarrow> datetime \<Rightarrow> py_error + bool" where
  "datetime_ge (Naive a) (Naive b) = Inr (a \<ge> b)"
| "datetime_ge (Aware a) (Aware b) = Inr (a \<ge> b)"
| "datetime_ge a b = Inl TypeError"

fun datetime_le :: "datetime \<Rightarrow> datetime \<Rightarrow> py_error + bool" where
  "datetime_le (Naive a) (Naive b) = Inr (a \<le> b)"
| "datetime_le (Aware a) (Aware b) = Inr (a \<le> b)"
| "datetime_le a b = Inl TypeError"

text \<open>Python's \<^verbatim>\<open>and\<close>: the right operand is evaluated, and can raise, only when
  the left one is true.\<close>

definition py_and :: "py_error + bool \<Rightarrow> py_error + bool \<Rightarrow> py_error + bool" where
  "py_and a b = (case a of Inl e \<Rightarrow> Inl e | Inr c \<Rightarrow> if c then b else Inr False)"

text \<open>The condition of lines 89--96, conjunct by conjunct: the membership test can
  raise, and so can the two comparisons of the timestamp.\<close>

definition filter_cond ::
  "asset_classes_arg option \<Rightarrow> datetime option \<Rightarrow> datetime option \<Rightarrow> real option \<Rightarrow>
   real option \<Rightarrow> string option \<Rightarrow> Trade \<Rightarrow> py_error + bool" where
  "filter_cond asset_classes start end_dt min_price max_price trade_type trade =
     py_and (case asset_classes of
               None \<Rightarrow> Inr True
             | Some arg \<Rightarrow> asset_class_in (asset_class trade) arg)
    (py_and (case start of
               None \<Rightarrow> Inr True
             | Some s \<Rightarrow> datetime_ge (trade_date_time trade) s)
    (py_and (case end_dt of
               None \<Rightarrow> Inr True
             | Some e \<Rightarrow> datetime_le (trade_date_time trade) e)
    (py_and (Inr (case min_price of None \<Rightarrow> True | Some p \<Rightarrow> price (trade_details trade) \<ge> p))
    (py_and (Inr (case max_price of None \<Rightarrow> True | Some p \<Rightarrow> price (trade_details trade) \<le> p))
            (Inr (case trade_type of
                    None \<Rightarrow> True
                  | Some b \<Rightarrow> buySellIndicator (trade_details trade) = b))))))"

definition filter_trades ::
  "TradeDB \<Rightarrow> asset_classes_arg option \<Rightarrow> datetime option \<Rightarrow> datetime option \<Rightarrow>
   real option \<Rightarrow> real option \<Rightarrow> string option \<Rightarrow> py_error + Trade list" where
  "filter_trades db asset_classes start end_dt min_price max_price trade_type =
     collect (filter_cond asset_classes start end_dt min_price max_price trade_type) (trades db) []"

subsection \<open>Sorting (lines 267--271)\<close>

text \<open>The values an attribute of a \<^verbatim>\<open>Trade\<close> can hold: those of the declared
  fields, and the value of an attribute that the base class supplies, known by its name
  only.\<close>

datatype py_value =
    PNone | PStr string | PDatetime datetime | PTradeDetails TradeDetails | PInherited string

definition of_opt :: "string option \<Rightarrow> py_value" where
  "of_opt v = (case v of None \<Rightarrow> PNone | Some s \<Rightarrow> PStr s)"

text \<open>The eight fields that the class \<^verbatim>\<open>Trade\<close> declares (lines 106--113).\<close>

definition field_value :: "string \<Rightarrow> Trade \<Rightarrow> py_value option" where
  "field_value name x =
     (if name = ''asset_class'' then Some (of_opt (asset_class x))
      else if name = ''counterparty'' then Some (of_opt (counterparty x))
      else if name = ''instrument_id'' then Some (PStr (instrument_id x))
      else if name = ''instrument_name'' then Some (PStr (instrument_name x))
      else if name = ''trade_date_time'' then Some (PDatetime (trade_date_time x))
      else if name = ''trade_details'' then Some (PTradeDetails (trade_details x))
      else if name = ''trade_id'' then Some (of_opt (trade_id x))
      else if name = ''trader'' then Some (PStr (trader x))
      else None)"

text \<open>The base class, as far as the sort meets it. For the name of an attribute that the
  class gives every \<^verbatim>\<open>Trade\<close> object beyond the declared fields (a method, a class
  attribute such as \<^verbatim>\<open>__module__\<close>), \<open>base name = Some srt\<close>, where \<open>srt reverse xs\<close> is
  what \<^verbatim>\<open>sorted(xs, key=lambda x: getattr(x, name), reverse=reverse)\<close> does on two or
  more trades: nothing is assumed about it. For any other name, \<open>base name = None\<close>.\<close>

type_synonym base_class = "string \<Rightarrow> (bool \<Rightarrow> Trade list \<Rightarrow> py_error + Trade list) option"

text \<open>\<^verbatim>\<open>getattr(x, sort_field)\<close> on a \<^verbatim>\<open>Trade\<close>: a declared field, else an
  attribute of the base class, else the attribute is missing.\<close>

definition getattr :: "base_class \<Rightarrow> Trade \<Rightarrow> string \<Rightarrow> py_error + py_value" where
  "getattr base x name =
     (case field_value name x of
        Some v \<Rightarrow> Inr v
      | None \<Rightarrow>
          (case base name of
             Some srt \<Rightarrow> Inr (PInherited name)
           | None \<Rightarrow> Inl (AttributeError name)))"

text \<open>\<^verbatim>\<open>sorted\<close> first computes the key of every element, in order.\<close>

fun keys_of :: "base_class \<Rightarrow> Trade list \<Rightarrow> string \<Rightarrow> py_error + py_value list" where
  "keys_of base [] name = Inr []"
| "keys_of base (x # xs) name =
     (case getattr base x name of
        Inl e \<Rightarrow> Inl e
      | Inr k \<Rightarrow> (case keys_of base xs name of Inl e \<Rightarrow> Inl e | Inr ks \<Rightarrow> Inr (k # ks)))"

fun is_str :: "py_value \<Rightarrow> bool" where
  "is_str (PStr s) = True"
| "is_str v = False"

fun is_naive :: "py_value \<Rightarrow> bool" where
  "is_naive (PDatetime (Naive d)) = True"
| "is_naive v = False"

fun is_aware :: "py_value \<Rightarrow> bool" where
  "is_aware (PDatetime (Aware d)) = True"
| "is_aware v = False"

fun is_inherited :: "py_value \<Rightarrow> bool" where
  "is_inherited (PInherited name) = True"
| "is_inherited v = False"

fun str_of :: "py_value \<Rightarrow> string" where
  "str_of (PStr s) = s"
| "str_of v = []"

fun time_of :: "py_value \<Rightarrow> int" where
  "time_of (PDatetime (Naive d)) = d"
| "time_of (PDatetime (Aware d)) = d"
| "time_of v = 0"

text \<open>The value of a declared field, as a sort key.\<close>

definition attr :: "string \<Rightarrow> Trade \<Rightarrow> py_value" where
  "attr name x = (case field_value name x of Some v \<Rightarrow> v | None \<Rightarrow> PNone)"

text \<open>The stable sort behind \<^verbatim>\<open>sorted(xs, key=..., reverse=...)\<close> on keys that
  compare: for \<^verbatim>\<open>reverse=True\<close> the list is reversed, sorted and reversed again,
  which keeps elements with equal keys in their original order.\<close>

definition py_sorted :: "('a \<Rightarrow> 'k::linorder) \<Rightarrow> bool \<Rightarrow> 'a list \<Rightarrow> 'a list" where
  "py_sorted key reverse xs =
     (if reverse then rev (sort_key key (rev xs)) else sort_key key xs)"

text \<open>\<^verbatim>\<open>sorted(sorted_trades, key=lambda x: getattr(x, sort_field), reverse=reverse_sort)\<close>.
  With fewer than two elements no two keys are compared. With two or more, every key
  takes part in a comparison: strings compare with strings (by code point,
  lexicographically), naive datetimes with naive ones and aware datetimes with aware
  ones; \<^verbatim>\<open>None\<close>, a \<^verbatim>\<open>TradeDetails\<close> object and a naive against an aware datetime
  support no \<^verbatim>\<open><\<close>, which is a \<^verbatim>\<open>TypeError\<close>. The keys of an attribute of the
  base class are sorted as the base class has it.\<close>

definition sorted_by :: "base_class \<Rightarrow> Trade list \<Rightarrow> string \<Rightarrow> bool \<Rightarrow> py_error + Trade list" where
  "sorted_by base xs sort_field reverse_sort =
     (case keys_of base xs sort_field of
        Inl e \<Rightarrow> Inl e
      | Inr ks \<Rightarrow>
          if length ks < 2 then Inr xs
          else if list_all is_str ks
            then Inr (py_sorted (\<lambda>x. str_of (attr sort_field x)) reverse_sort xs)
          else if list_all is_naive ks \<or> list_all is_aware ks
            then Inr (py_sorted (\<lambda>x. time_of (attr sort_field x)) reverse_sort xs)
          else if list_all is_inherited ks
            then (case base sort_field of
                    Some srt \<Rightarrow> srt reverse_sort xs
                  | None \<Rightarrow> Inl TypeError)
          else Inl TypeError)"

text \<open>One round of the loop of lines 268--271.\<close>

definition sort_step :: "base_class \<Rightarrow> Trade list \<Rightarrow> string \<Rightarrow> py_error + Trade list" where
  "sort_step base sorted_trades field =
     (let reverse_sort = startswith field ''-'';
          sort_field = lstrip_dash field
      in sorted_by base sorted_trades sort_field reverse_sort)"

fun sort_loop :: "base_class \<Rightarrow> Trade list \<Rightarrow> string list \<Rightarrow> py_error + Trade list" where
  "sort_loop base sorted_trades [] = Inr sorted_trades"
| "sort_loop base sorted_trades (field # later) =
     (case sort_step base sorted_trades field of
        Inl e \<Rightarrow> Inl e
      | Inr ys \<Rightarrow> sort_loop base ys later)"

subsection \<open>Pagination (lines 274--276)\<close>

text \<open>The slice \<^verbatim>\<open>xs[a:b]\<close> of Python: a negative bound counts from the end, and
  both bounds are clipped to the list.\<close>

definition py_slice :: "'a list \<Rightarrow> int \<Rightarrow> int \<Rightarrow> 'a list" where
  "py_slice xs a b =
     (let n = int (length xs);
          lo = (if a < 0 then max (a + n) 0 else min a n);
          hi = (if b < 0 then max (b + n) 0 else min b n)
      in if lo < hi then take (nat (hi - lo)) (drop (nat lo) xs) else [])"

definition paginate :: "'a list \<Rightarrow> int \<Rightarrow> int \<Rightarrow> 'a list" where
  "paginate sorted_trades page page_size =
     (let start_idx = (page - 1) * page_size;
          end_idx = start_idx + page_size
      in py_slice sorted_trades start_idx end_idx)"

subsection \<open>The list endpoint (lines 233--278)\<close>

record request =
  req_asset_classes :: "string option"
  req_start :: "datetime option"
  req_end :: "datetime option"
  req_min_price :: "real option"
  req_max_price :: "real option"
  req_trade_type :: "string option"
  req_trader :: "string option"
  req_page :: int
  req_page_size :: int
  req_sort_by :: "string list"
  req_search :: "string option"
  req_exclude_traders :: "string list"

text \<open>The request that supplies no parameter: every default of the signature.\<close>

definition default_request :: request where
  "default_request =
     \<lparr>req_asset_classes = None, req_start = None, req_end = None, req_min_price = None,
      req_max_price = None, req_trade_type = None, req_trader = None, req_page = 1,
      req_page_size = 10, req_sort_by = [''trade_date_time''], req_search = None,
      req_exclude_traders = []\<rparr>"

text \<open>\<^verbatim>\<open>if search:\<close> and \<^verbatim>\<open>if trader:\<close> are true for a string that is present
  and not empty.\<close>

fun truthy :: "string option \<Rightarrow> string option" where
  "truthy None = None"
| "truthy (Some s) = (if s = [] then None else Some s)"

text \<open>Lines 249--252: the first assignment to \<^verbatim>\<open>filtered_trades\<close>.\<close>

definition search_stage :: "TradeDB \<Rightarrow> request \<Rightarrow> py_error + Trade list" where
  "search_stage db rq =
     (case truthy (req_search rq) of
        Some s \<Rightarrow> search_trades db s
      | None \<Rightarrow> Inr (trades db))"

text \<open>Lines 249--257: the value of \<^verbatim>\<open>filtered_trades\<close> after the filter call, which
  does not read the variable it overwrites.\<close>

definition base_set :: "TradeDB \<Rightarrow> request \<Rightarrow> py_error + Trade list" where
  "base_set db rq =
     (case search_stage db rq of
        Inl e \<Rightarrow> Inl e
      | Inr searched \<Rightarrow>
          filter_trades db (map_option AcStr (req_asset_classes rq)) (req_start rq) (req_end rq)
            (req_min_price rq) (req_max_price rq) (req_trade_type rq))"

text \<open>Lines 260--264: exclusion, then the restriction to one trader.\<close>

definition narrow :: "request \<Rightarrow> Trade list \<Rightarrow> Trade list" where
  "narrow rq filtered_trades =
     (let excluded = filter (\<lambda>trade. trader trade \<notin> set (req_exclude_traders rq))
                       filtered_trades
      in case truthy (req_trader rq) of
           Some name \<Rightarrow> filter (\<lambda>trade. trader trade = name) excluded
         | None \<Rightarrow> excluded)"

text \<open>The value of \<^verbatim>\<open>filtered_trades\<close> when the sort begins (line 266) and of
  \<^verbatim>\<open>sorted_trades\<close> when it ends (line 273).\<close>

definition filtered_trades :: "TradeDB \<Rightarrow> request \<Rightarrow> py_error + Trade list" where
  "filtered_trades db rq =
     (case base_set db rq of Inl e \<Rightarrow> Inl e | Inr base \<Rightarrow> Inr (narrow rq base))"

definition sorted_trades :: "base_class \<Rightarrow> TradeDB \<Rightarrow> request \<Rightarrow> py_error + Trade list" where
  "sorted_trades base db rq =
     (case filtered_trades db rq of
        Inl e \<Rightarrow> Inl e
      | Inr xs \<Rightarrow> sort_loop base xs (req_sort_by rq))"

text \<open>The endpoint returns its response and the store it leaves: no statement of the
  function assigns to the store or to a list it holds (\<^verbatim>\<open>sorted\<close> builds a new list).\<close>

definition list_trades ::
  "base_class \<Rightarrow> TradeDB \<Rightarrow> request \<Rightarrow> (py_error + Trade list) \<times> TradeDB" where
  "list_trades base db rq =
     (case sorted_trades base db rq of
        Inl e \<Rightarrow> (Inl e, db)
      | Inr xs \<Rightarrow> (Inr (paginate xs (req_page rq) (req_page_size rq)), db))"

subsection \<open>The notions the specification speaks of\<close>

text \<open>The names of the fields that the class \<^verbatim>\<open>Trade\<close> declares (lines 106--113).\<close>

definition Trade_fields :: "string list" where
  "Trade_fields =
     [''asset_class'', ''counterparty'', ''instrument_id'', ''instrument_name'',
      ''trade_date_time'', ''trade_details'', ''trade_id'', ''trader'']"

text \<open>Following the specification's words (section 4.1, \<^verbatim>\<open>search\<close>), not the code: a
  trade matches when the text, compared without regard to case, is a substring of one of
  the four fields, each tested on its own; an absent counterparty holds no text.\<close>

definition substring :: "string \<Rightarrow> string \<Rightarrow> bool" where
  "substring a b = (\<exists>before after. b = before @ a @ after)"

definition spec_match :: "string \<Rightarrow> Trade \<Rightarrow> bool" where
  "spec_match text trade =
     (substring (lower text) (lower (instrument_id trade))
      \<or> substring (lower text) (lower (instrument_name trade))
      \<or> (case counterparty trade of None \<Rightarrow> False | Some c \<Rightarrow> substring (lower text) (lower c))
      \<or> substring (lower text) (lower (trader trade)))"

text \<open>Python's \<^verbatim>\<open><=\<close> on two attribute values, where it is defined.\<close>

fun value_le :: "py_value \<Rightarrow> py_value \<Rightarrow> bool" where
  "value_le (PStr a) (PStr b) = (a \<le> b)"
| "value_le (PDatetime (Naive a)) (PDatetime (Naive b)) = (a \<le> b)"
| "value_le (PDatetime (Aware a)) (PDatetime (Aware b)) = (a \<le> b)"
| "value_le v w = False"

text \<open>A sequence is in the order that one sort asks for: ascending in the attribute, or
  descending when \<^verbatim>\<open>reverse\<close> is set; for a sort key of the request, descending when
  the key starts with a dash.\<close>

definition stage_ordered :: "string \<Rightarrow> bool \<Rightarrow> Trade list \<Rightarrow> bool" where
  "stage_ordered sort_field reverse_sort ys =
     (if reverse_sort
      then sorted_wrt (\<lambda>x y. value_le (attr sort_field y) (attr sort_field x)) ys
      else sorted_wrt (\<lambda>x y. value_le (attr sort_field x) (attr sort_field y)) ys)"

definition ordered_by :: "string \<Rightarrow> Trade list \<Rightarrow> bool" where
  "ordered_by field ys = stage_ordered (lstrip_dash field) (startswith field ''-'') ys"

text \<open>The fields whose values always compare with each other: the three required
  strings.\<close>

definition string_fields :: "string list" where
  "string_fields = [''instrument_id'', ''instrument_name'', ''trader'']"

subsection \<open>Sample data\<close>

text \<open>Two of the attributes that the base class supplies: \<^verbatim>\<open>__module__\<close> is one and
  the same string for all trades, so that the stable sort leaves the sequence as it is;
  \<^verbatim>\<open>model_dump\<close> is a method, and two methods do not compare.\<close>

definition sample_base :: base_class where
  "sample_base name =
     (if name = ''__module__'' then Some (\<lambda>reverse xs. Inr xs)
      else if name = ''model_dump'' then Some (\<lambda>reverse xs. Inl TypeError)
      else None)"

definition trade_a :: Trade where
  "trade_a =
     \<lparr>asset_class = Some ''Equities (Stocks)'', counterparty = Some ''Counterparty1'',
      instrument_id = ''TSLA (Tesla, Inc. stock)'', instrument_name = ''Random Instrument'',
      trade_date_time = Naive 10,
      trade_details = \<lparr>buySellIndicator = ''BUY'', price = 100, quantity = 5\<rparr>,
      trade_id = Some ''id-a'', trader = ''John Smith''\<rparr>"

definition trade_b :: Trade where
  "trade_b =
     \<lparr>asset_class = Some ''Cryptocurrencies'', counterparty = Some ''Counterparty2'',
      instrument_id = ''GOLD (Gold commodity)'', instrument_name = ''Random Instrument'',
      trade_date_time = Naive 30,
      trade_details = \<lparr>buySellIndicator = ''SELL'', price = 300, quantity = 1\<rparr>,
      trade_id = Some ''id-b'', trader = ''Ann Lee''\<rparr>"

definition trade_c :: Trade where
  "trade_c =
     \<lparr>asset_class = Some ''Cryptocurrencies'', counterparty = Some ''Counterparty1'',
      instrument_id = ''Bitcoin (BTC cryptocurrency)'', instrument_name = ''Random Instrument'',
      trade_date_time = Naive 20,
      trade_details = \<lparr>buySellIndicator = ''BUY'', price = 200, quantity = 7\<rparr>,
      trade_id = Some ''id-c'', trader = ''John Smith''\<rparr>"

text \<open>A trade built with the default of the optional \<^verbatim>\<open>counterparty\<close>.\<close>

definition trade_n :: Trade where
  "trade_n =
     \<lparr>asset_class = None, counterparty = None,
      instrument_id = ''GOOG (Alphabet Inc. stock)'', instrument_name = ''Random Instrument'',
      trade_date_time = Naive 5,
      trade_details = \<lparr>buySellIndicator = ''SELL'', price = 50, quantity = 2\<rparr>,
      trade_id = Some ''id-n'', trader = ''Ann Lee''\<rparr>"

text \<open>A trade whose details break every rule of the data model of the specification.\<close>

definition trade_bad :: Trade where
  "trade_bad =
     \<lparr>asset_class = None, counterparty = Some ''Counterparty3'',
      instrument_id = ''EURUSD (Euro/US Dollar forex pair)'', instrument_name = ''Random Instrument'',
      trade_date_time = Naive 1,
      trade_details = \<lparr>buySellIndicator = ''HOLD'', price = - 1, quantity = 0\<rparr>,
      trade_id = Some ''id-bad'', trader = ''Ann Lee''\<rparr>"

text \<open>A trade whose timestamp carries a time zone.\<close>

definition trade_w :: Trade where
  "trade_w =
     \<lparr>asset_class = Some ''Precious Metals'', counterparty = Some ''Counterparty4'',
      instrument_id = ''SILVER (Silver commodity)'', instrument_name = ''Random Instrument'',
      trade_date_time = Aware 15,
      trade_details = \<lparr>buySellIndicator = ''BUY'', price = 150, quantity = 3\<rparr>,
      trade_id = Some ''id-w'', trader = ''Ann Lee''\<rparr>"

definition db_abc :: TradeDB where
  "db_abc = add_trades TradeDB_init [trade_a, trade_b, trade_c]"

definition db_n :: TradeDB where
  "db_n = add_trades TradeDB_init [trade_a, trade_n]"

definition db_w :: TradeDB where
  "db_w = add_trades TradeDB_init [trade_a, trade_w]"

section \<open>Properties\<close>

lemmas sample_defs =
  db_abc_def db_n_def db_w_def TradeDB_init_def add_trade_def
  trade_a_def trade_b_def trade_c_def trade_n_def trade_w_def trade_bad_def

subsection \<open>The store\<close>

lemma add_trades_append: "trades (add_trades db ts) = trades db @ ts"
  by (induction ts arbitrary: db) (simp_all add: add_trade_def)

lemma find_trade_None: "find_trade ts tid = None \<longleftrightarrow> (\<forall>t\<in>set ts. trade_id t \<noteq> tid)"
  by (induction ts) auto

lemma find_trade_Some: "find_trade ts tid = Some t \<Longrightarrow> t \<in> set ts \<and> trade_id t = tid"
  by (induction ts) (auto split: if_splits)

lemma find_trade_distinct:
  "distinct (map trade_id ts) \<Longrightarrow> t \<in> set ts \<Longrightarrow> find_trade ts (trade_id t) = Some t"
  by (induction ts) (auto simp: image_iff)

text \<open>
  \<^bold>\<open>C9.\<close> When the ids of the stored trades are pairwise different, looking a stored
  trade up by its id returns that very trade, at the store and at the endpoint; the
  endpoint answers with the 404 exception exactly when no stored trade carries the id;
  and every answer is either that exception or a stored trade with the requested id,
  never a made-up record.
\<close>

theorem get_by_id_lookup:
  assumes "distinct (map trade_id (trades db))"
  shows "(\<forall>t\<in>set (trades db). TradeDB_get_trade_by_id db (trade_id t) = Some t)
       \<and> (\<forall>t\<in>set (trades db). \<forall>i. trade_id t = Some i \<longrightarrow> get_trade_by_id db i = Inr t)
       \<and> (\<forall>i. get_trade_by_id db i = Inl (HTTPException 404)
              \<longleftrightarrow> (\<forall>t\<in>set (trades db). trade_id t \<noteq> Some i))
       \<and> (\<forall>i r. get_trade_by_id db i = r \<longrightarrow>
              r = Inl (HTTPException 404) \<or> (\<exists>t\<in>set (trades db). r = Inr t \<and> trade_id t = Some i))"
proof -
  have a: "\<forall>t\<in>set (trades db). TradeDB_get_trade_by_id db (trade_id t) = Some t"
    using assms by (simp add: TradeDB_get_trade_by_id_def find_trade_distinct)
  have b: "\<forall>t\<in>set (trades db). \<forall>i. trade_id t = Some i \<longrightarrow> get_trade_by_id db i = Inr t"
  proof (intro ballI allI impI)
    fix t i assume "t \<in> set (trades db)" "trade_id t = Some i"
    with a have "TradeDB_get_trade_by_id db (Some i) = Some t" by metis
    then show "get_trade_by_id db i = Inr t" by (simp add: get_trade_by_id_def)
  qed
  have c: "\<forall>i. get_trade_by_id db i = Inl (HTTPException 404)
              \<longleftrightarrow> (\<forall>t\<in>set (trades db). trade_id t \<noteq> Some i)"
    by (auto simp: get_trade_by_id_def TradeDB_get_trade_by_id_def find_trade_None
        split: option.splits dest: find_trade_Some)
  have d: "\<forall>i r. get_trade_by_id db i = r \<longrightarrow>
              r = Inl (HTTPException 404) \<or> (\<exists>t\<in>set (trades db). r = Inr t \<and> trade_id t = Some i)"
    by (auto simp: get_trade_by_id_def TradeDB_get_trade_by_id_def
        split: option.splits dest: find_trade_Some)
  from a b c d show ?thesis by blast
qed

theorem get_by_id_lookup_witness:
  "distinct (map trade_id (trades db_abc))
   \<and> trade_c \<in> set (trades db_abc)
   \<and> get_trade_by_id db_abc ''id-c'' = Inr trade_c
   \<and> get_trade_by_id db_abc ''id-n'' = Inl (HTTPException 404)"
  using get_by_id_lookup [of db_abc]
  by (simp add: sample_defs)

text \<open>
  \<^bold>\<open>C7 (as the code has it).\<close> Neither class of the data model restricts a value
  beyond its type, and \<^verbatim>\<open>add_trade\<close> checks nothing: after adding a trade the store
  is the old store followed by that trade, whatever its details, and the seeding loop
  appends its whole input.
\<close>

theorem add_accepts_any_trade:
  "trades (add_trade db trade) = trades db @ [trade]
   \<and> trades (add_trades db ts) = trades db @ ts"
  by (simp add: add_trades_append) (simp add: add_trade_def)

text \<open>A trade with quantity 0, price -1 and indicator \<^verbatim>\<open>HOLD\<close> reaches the store.\<close>

theorem add_bad_trade_counterexample:
  "trades (add_trade TradeDB_init trade_bad) = [trade_bad]
   \<and> quantity (trade_details trade_bad) = 0
   \<and> price (trade_details trade_bad) = - 1
   \<and> buySellIndicator (trade_details trade_bad) = ''HOLD''"
  by (simp add: add_trade_def TradeDB_init_def trade_bad_def)

subsection \<open>Pagination\<close>

lemma py_slice_nonneg:
  "0 \<le> a \<Longrightarrow> a \<le> b \<Longrightarrow> py_slice xs a b = take (nat (b - a)) (drop (nat a) xs)"
  by (auto simp: py_slice_def Let_def min_def max_def)

lemma paginate_valid:
  assumes "1 \<le> page" "1 \<le> page_size"
  shows "paginate xs page page_size = take (nat page_size) (drop (nat ((page - 1) * page_size)) xs)"
proof -
  have "0 \<le> (page - 1) * page_size" using assms by simp
  moreover have "(page - 1) * page_size \<le> (page - 1) * page_size + page_size"
    using assms by simp
  ultimately have "py_slice xs ((page - 1) * page_size) ((page - 1) * page_size + page_size)
      = take (nat ((page - 1) * page_size + page_size - (page - 1) * page_size))
          (drop (nat ((page - 1) * page_size)) xs)"
    by (rule py_slice_nonneg)
  then show ?thesis
    by (simp add: paginate_def Let_def)
qed

lemma list10:
  assumes "length xs = 10"
  shows "xs = [xs ! 0, xs ! 1, xs ! 2, xs ! 3, xs ! 4, xs ! 5, xs ! 6, xs ! 7, xs ! 8, xs ! 9]"
  using assms by (intro nth_equalityI) (auto simp: nth_Cons' less_Suc_eq numeral_eq_Suc)

text \<open>
  \<^bold>\<open>C3 (as the code has it).\<close> For \<open>page \<ge> 1\<close> and \<open>page_size \<ge> 1\<close> the page is the
  slice of the sequence that starts at index \<open>(page - 1) * page_size\<close> and holds at most
  \<open>page_size\<close> elements, and it is empty when the start lies beyond the sequence. Over ten
  elements and \<open>page_size = 3\<close>, page 2 holds the elements at indices 3, 4, 5, page 4 still
  holds the element at index 9, and page 5 is the first empty page.
\<close>

theorem pagination_slice:
  assumes "1 \<le> page" "1 \<le> page_size"
  shows "paginate xs page page_size
           = take (nat page_size) (drop (nat ((page - 1) * page_size)) xs)
       \<and> length (paginate xs page page_size)
           = min (nat page_size) (length xs - nat ((page - 1) * page_size))
       \<and> (\<forall>i < length (paginate xs page page_size).
             paginate xs page page_size ! i = xs ! (nat ((page - 1) * page_size) + i))
       \<and> (int (length xs) \<le> (page - 1) * page_size \<longrightarrow> paginate xs page page_size = [])
       \<and> (length xs = 10 \<longrightarrow>
             paginate xs 2 3 = [xs ! 3, xs ! 4, xs ! 5]
           \<and> paginate xs 4 3 = [xs ! 9]
           \<and> paginate xs 5 3 = [])"
proof -
  let ?s = "nat ((page - 1) * page_size)"
  have eq: "paginate xs page page_size = take (nat page_size) (drop ?s xs)"
    using assms by (rule paginate_valid)
  have len: "length (paginate xs page page_size) = min (nat page_size) (length xs - ?s)"
    by (simp add: eq min.commute)
  have nth: "\<forall>i < length (paginate xs page page_size).
             paginate xs page page_size ! i = xs ! (?s + i)"
    by (auto simp: eq)
  have out: "int (length xs) \<le> (page - 1) * page_size \<longrightarrow> paginate xs page page_size = []"
    by (simp add: eq)
  have ten: "length xs = 10 \<longrightarrow>
             paginate xs 2 3 = [xs ! 3, xs ! 4, xs ! 5]
           \<and> paginate xs 4 3 = [xs ! 9]
           \<and> paginate xs 5 3 = []"
  proof
    assume l: "length xs = 10"
    have p: "paginate xs 2 3 = take 3 (drop 3 xs)" "paginate xs 4 3 = take 3 (drop 9 xs)"
      "paginate xs 5 3 = take 3 (drop 12 xs)"
      by (simp_all add: paginate_valid)
    show "paginate xs 2 3 = [xs ! 3, xs ! 4, xs ! 5] \<and> paginate xs 4 3 = [xs ! 9] \<and> paginate xs 5 3 = []"
      unfolding p by (subst (1 2) list10 [OF l]) (simp add: l)
  qed
  from eq len nth out ten show ?thesis by blast
qed

theorem pagination_slice_witness:
  "(1::int) \<le> 2 \<and> (1::int) \<le> 3
   \<and> paginate [0, 1, 2, 3, 4, 5, 6, 7, 8, 9 :: nat] 2 3 = [3, 4, 5]
   \<and> length (paginate [0, 1, 2, 3, 4, 5, 6, 7, 8, 9 :: nat] 2 3) = 3"
  using pagination_slice [of 2 3 "[0, 1, 2, 3, 4, 5, 6, 7, 8, 9 :: nat]"]
  by simp

text \<open>Page 4 of ten elements with three to a page is not empty.\<close>

theorem pagination_page4_counterexample:
  "paginate [0, 1, 2, 3, 4, 5, 6, 7, 8, 9 :: nat] 4 3 = [9]"
  by (simp add: paginate_def py_slice_def)

subsection \<open>Sorting\<close>

lemma field_value_known: "name \<in> set Trade_fields \<Longrightarrow> field_value name x = Some (attr name x)"
  by (auto simp: Trade_fields_def field_value_def attr_def)

lemma field_value_unknown: "name \<notin> set Trade_fields \<Longrightarrow> field_value name x = None"
  by (simp add: Trade_fields_def field_value_def)

lemma getattr_known: "name \<in> set Trade_fields \<Longrightarrow> getattr base x name = Inr (attr name x)"
  by (simp add: getattr_def field_value_known)

lemma getattr_unknown:
  "name \<notin> set Trade_fields \<Longrightarrow> base name = None \<Longrightarrow>
   getattr base x name = Inl (AttributeError name)"
  by (simp add: getattr_def field_value_unknown)

lemma keys_of_known:
  "name \<in> set Trade_fields \<Longrightarrow> keys_of base xs name = Inr (map (attr name) xs)"
  by (induction xs) (simp_all add: getattr_known)

lemma keys_of_unknown:
  "name \<notin> set Trade_fields \<Longrightarrow> base name = None \<Longrightarrow> xs \<noteq> [] \<Longrightarrow>
   keys_of base xs name = Inl (AttributeError name)"
  by (cases xs) (simp_all add: getattr_unknown)

lemma attr_not_inherited: "name \<in> set Trade_fields \<Longrightarrow> \<not> is_inherited (attr name x)"
  by (auto simp: Trade_fields_def field_value_def attr_def of_opt_def split: option.splits)

lemma sorted_wrt_short: "length xs < 2 \<Longrightarrow> sorted_wrt P xs"
  by (cases xs) (auto simp: length_Suc_conv)

lemma mset_py_sorted: "mset (py_sorted key r xs) = mset xs"
  by (simp add: py_sorted_def)

lemma set_py_sorted: "set (py_sorted key r xs) = set xs"
  by (metis mset_py_sorted set_mset_mset)

lemma py_sorted_stable:
  "filter (\<lambda>y. key y = v) (py_sorted key r xs) = filter (\<lambda>y. key y = v) xs"
proof (cases r)
  case True
  have "filter (\<lambda>y. key y = v) (rev (sort_key key (rev xs)))
      = rev (filter (\<lambda>y. key y = v) (sort_key key (rev xs)))"
    by (rule rev_filter [symmetric])
  also have "\<dots> = rev (filter (\<lambda>y. key y = v) (rev xs))"
    by (simp only: sort_key_stable)
  also have "\<dots> = filter (\<lambda>y. key y = v) xs"
    by (simp only: rev_filter rev_rev_ident)
  finally show ?thesis using True by (simp only: py_sorted_def if_True)
next
  case False
  then show ?thesis by (simp only: py_sorted_def if_False sort_key_stable)
qed

lemma py_sorted_ascending: "sorted_wrt (\<lambda>x y. key x \<le> key y) (py_sorted key False xs)"
proof -
  have "sorted (map key (sort_key key xs))" by (rule sorted_sort_key)
  then show ?thesis by (simp only: py_sorted_def if_False sorted_map)
qed

lemma py_sorted_descending: "sorted_wrt (\<lambda>x y. key y \<le> key x) (py_sorted key True xs)"
proof -
  have "sorted (map key (sort_key key (rev xs)))" by (rule sorted_sort_key)
  then have "sorted_wrt (\<lambda>x y. key x \<le> key y) (sort_key key (rev xs))"
    by (simp only: sorted_map)
  then show ?thesis
    by (simp only: py_sorted_def if_True sorted_wrt_rev)
qed

text \<open>Sorting by a projection of keys of one kind: a stable rearrangement in the order
  of the keys.\<close>

lemma sort_projected:
  fixes proj :: "py_value \<Rightarrow> 'k::linorder"
  assumes ok: "\<forall>t\<in>set xs. ok (attr f t)"
    and eq: "\<And>a v. ok a \<Longrightarrow> (a = v) = (ok v \<and> proj a = proj v)"
    and le: "\<And>a b. ok a \<Longrightarrow> ok b \<Longrightarrow> value_le a b = (proj a \<le> proj b)"
    and ys: "ys = py_sorted (\<lambda>x. proj (attr f x)) r xs"
  shows "mset ys = mset xs"
    and "filter (\<lambda>t. attr f t = v) ys = filter (\<lambda>t. attr f t = v) xs"
    and "stage_ordered f r ys"
proof -
  show m: "mset ys = mset xs" by (simp only: ys mset_py_sorted)
  have s: "set ys = set xs" by (simp only: ys set_py_sorted)
  have okys: "\<forall>t\<in>set ys. ok (attr f t)" using ok s by simp
  show "filter (\<lambda>t. attr f t = v) ys = filter (\<lambda>t. attr f t = v) xs"
  proof (cases "ok v")
    case True
    have "filter (\<lambda>t. attr f t = v) ys = filter (\<lambda>t. proj (attr f t) = proj v) ys"
      by (rule filter_cong [OF refl]) (use okys eq True in blast)
    also have "\<dots> = filter (\<lambda>t. proj (attr f t) = proj v) xs"
      by (simp only: ys py_sorted_stable)
    also have "\<dots> = filter (\<lambda>t. attr f t = v) xs"
      by (rule filter_cong [OF refl]) (use ok eq True in blast)
    finally show ?thesis .
  next
    case False
    have "filter (\<lambda>t. attr f t = v) ys = []"
      using okys eq False by (auto simp: filter_empty_conv)
    moreover have "filter (\<lambda>t. attr f t = v) xs = []"
      using ok eq False by (auto simp: filter_empty_conv)
    ultimately show ?thesis by simp
  qed
  show "stage_ordered f r ys"
  proof (cases r)
    case True
    have "sorted_wrt (\<lambda>x y. proj (attr f y) \<le> proj (attr f x)) ys"
      unfolding ys using True py_sorted_descending [of "\<lambda>x. proj (attr f x)" xs] by simp
    then have "sorted_wrt (\<lambda>x y. value_le (attr f y) (attr f x)) ys"
      by (rule sorted_wrt_mono_rel [rotated]) (use okys le in auto)
    then show ?thesis using True by (simp add: stage_ordered_def)
  next
    case False
    have "sorted_wrt (\<lambda>x y. proj (attr f x) \<le> proj (attr f y)) ys"
      unfolding ys using False py_sorted_ascending [of "\<lambda>x. proj (attr f x)" xs] by simp
    then have "sorted_wrt (\<lambda>x y. value_le (attr f x) (attr f y)) ys"
      by (rule sorted_wrt_mono_rel [rotated]) (use okys le in auto)
    then show ?thesis using False by (simp add: stage_ordered_def)
  qed
qed

lemma is_str_eq: "is_str a \<Longrightarrow> (a = v) = (is_str v \<and> str_of a = str_of v)"
  by (cases a; cases v) auto

lemma is_naive_eq: "is_naive a \<Longrightarrow> (a = v) = (is_naive v \<and> time_of a = time_of v)"
  by (induction a rule: is_naive.induct; induction v rule: is_naive.induct) auto

lemma is_aware_eq: "is_aware a \<Longrightarrow> (a = v) = (is_aware v \<and> time_of a = time_of v)"
  by (induction a rule: is_aware.induct; induction v rule: is_aware.induct) auto

lemma value_le_str: "is_str a \<Longrightarrow> is_str b \<Longrightarrow> value_le a b = (str_of a \<le> str_of b)"
  by (cases a; cases b) auto

lemma value_le_naive: "is_naive a \<Longrightarrow> is_naive b \<Longrightarrow> value_le a b = (time_of a \<le> time_of b)"
  by (induction a rule: is_naive.induct; induction b rule: is_naive.induct) auto

lemma value_le_aware: "is_aware a \<Longrightarrow> is_aware b \<Longrightarrow> value_le a b = (time_of a \<le> time_of b)"
  by (induction a rule: is_aware.induct; induction b rule: is_aware.induct) auto

text \<open>A sort by a declared field that returns: a stable rearrangement in the order of
  the field.\<close>

lemma sorted_by_Inr:
  assumes "sorted_by base xs f r = Inr ys" and fld: "f \<in> set Trade_fields"
  shows "mset ys = mset xs \<and> filter (\<lambda>t. attr f t = v) ys = filter (\<lambda>t. attr f t = v) xs
         \<and> stage_ordered f r ys"
proof -
  let ?ks = "map (attr f) xs"
  have ks: "keys_of base xs f = Inr ?ks" using fld by (rule keys_of_known)
  show ?thesis
  proof (cases "length xs < 2")
    case True
    then have "ys = xs" using assms(1) ks by (simp add: sorted_by_def)
    with True show ?thesis by (simp add: stage_ordered_def sorted_wrt_short)
  next
    case long: False
    then obtain x where x: "x \<in> set xs" by (cases xs) auto
    have ninh: "\<not> list_all is_inherited ?ks"
      using x attr_not_inherited [OF fld] by (auto simp: list_all_iff)
    consider (str) "list_all is_str ?ks"
      | (naive) "\<not> list_all is_str ?ks" "list_all is_naive ?ks"
      | (aware) "\<not> list_all is_str ?ks" "\<not> list_all is_naive ?ks" "list_all is_aware ?ks"
      | (bad) "\<not> list_all is_str ?ks" "\<not> list_all is_naive ?ks" "\<not> list_all is_aware ?ks"
      by blast
    then show ?thesis
    proof cases
      case str
      then have ys: "ys = py_sorted (\<lambda>x. str_of (attr f x)) r xs"
        using assms(1) ks long by (simp add: sorted_by_def)
      have ok: "\<forall>t\<in>set xs. is_str (attr f t)" using str by (simp add: list_all_iff)
      from sort_projected [OF ok is_str_eq value_le_str ys] show ?thesis by blast
    next
      case naive
      then have ys: "ys = py_sorted (\<lambda>x. time_of (attr f x)) r xs"
        using assms(1) ks long by (simp add: sorted_by_def)
      have ok: "\<forall>t\<in>set xs. is_naive (attr f t)" using naive by (simp add: list_all_iff)
      from sort_projected [OF ok is_naive_eq value_le_naive ys] show ?thesis by blast
    next
      case aware
      then have ys: "ys = py_sorted (\<lambda>x. time_of (attr f x)) r xs"
        using assms(1) ks long by (simp add: sorted_by_def)
      have ok: "\<forall>t\<in>set xs. is_aware (attr f t)" using aware by (simp add: list_all_iff)
      from sort_projected [OF ok is_aware_eq value_le_aware ys] show ?thesis by blast
    next
      case bad
      then show ?thesis using assms(1) ks long ninh by (simp add: sorted_by_def)
    qed
  qed
qed

lemma sorted_by_field_Inl:
  assumes "sorted_by base xs f r = Inl e" and fld: "f \<in> set Trade_fields"
  shows "e = TypeError"
proof -
  let ?ks = "map (attr f) xs"
  have ks: "keys_of base xs f = Inr ?ks" using fld by (rule keys_of_known)
  show ?thesis
  proof (cases "list_all is_inherited ?ks \<and> \<not> length xs < 2")
    case True
    then obtain x where "x \<in> set xs" by (cases xs) auto
    with True attr_not_inherited [OF fld] show ?thesis by (auto simp: list_all_iff)
  next
    case False
    then show ?thesis using assms(1) ks
      by (auto simp: sorted_by_def split: if_splits)
  qed
qed

lemma sorted_by_unknown:
  "f \<notin> set Trade_fields \<Longrightarrow> base f = None \<Longrightarrow> xs \<noteq> [] \<Longrightarrow>
   sorted_by base xs f r = Inl (AttributeError f)"
  by (simp add: sorted_by_def keys_of_unknown)

lemma sorted_by_Nil: "sorted_by base [] f r = Inr []"
  by (simp add: sorted_by_def)

lemma sort_step_Inr:
  assumes "sort_step base xs k = Inr ys" "lstrip_dash k \<in> set Trade_fields"
  shows "mset ys = mset xs
       \<and> filter (\<lambda>t. attr (lstrip_dash k) t = v) ys = filter (\<lambda>t. attr (lstrip_dash k) t = v) xs
       \<and> ordered_by k ys"
  using sorted_by_Inr [of base xs "lstrip_dash k" "startswith k ''-''" ys v] assms
  by (simp add: sort_step_def ordered_by_def)

lemma sort_step_field_Inl:
  "sort_step base xs k = Inl e \<Longrightarrow> lstrip_dash k \<in> set Trade_fields \<Longrightarrow> e = TypeError"
  using sorted_by_field_Inl [of base xs "lstrip_dash k" "startswith k ''-''" e]
  by (simp add: sort_step_def)

lemma sort_step_unknown:
  "lstrip_dash k \<notin> set Trade_fields \<Longrightarrow> base (lstrip_dash k) = None \<Longrightarrow> xs \<noteq> [] \<Longrightarrow>
   sort_step base xs k = Inl (AttributeError (lstrip_dash k))"
  by (simp add: sort_step_def sorted_by_unknown)

lemma sort_loop_Nil: "sort_loop base [] ks = Inr []"
  by (induction ks) (simp_all add: sort_step_def sorted_by_Nil)

lemma sort_loop_append:
  "sort_loop base xs (ks @ later)
     = (case sort_loop base xs ks of Inl e \<Rightarrow> Inl e | Inr zs \<Rightarrow> sort_loop base zs later)"
  by (induction ks arbitrary: xs) (auto split: sum.splits)

lemma sort_loop_snoc:
  "sort_loop base xs (ks @ [k])
     = (case sort_loop base xs ks of Inl e \<Rightarrow> Inl e | Inr zs \<Rightarrow> sort_step base zs k)"
  by (simp add: sort_loop_append split: sum.splits)

text \<open>A run of sorts by declared fields returns a rearrangement or ends in a
  \<^verbatim>\<open>TypeError\<close>.\<close>

lemma sort_loop_fields:
  assumes "\<forall>k\<in>set ks. lstrip_dash k \<in> set Trade_fields"
  shows "(\<forall>ys. sort_loop base xs ks = Inr ys \<longrightarrow> mset ys = mset xs)
       \<and> (\<forall>e. sort_loop base xs ks = Inl e \<longrightarrow> e = TypeError)"
  using assms
proof (induction ks arbitrary: xs)
  case Nil
  then show ?case by simp
next
  case (Cons k ks)
  show ?case
  proof (cases "sort_step base xs k")
    case (Inl e)
    with Cons.prems sort_step_field_Inl [of base xs k e] show ?thesis by simp
  next
    case (Inr zs)
    have "mset zs = mset xs" using sort_step_Inr [OF Inr] Cons.prems by simp
    moreover have "\<forall>k\<in>set ks. lstrip_dash k \<in> set Trade_fields" using Cons.prems by simp
    ultimately show ?thesis using Cons.IH [of zs] Inr by simp
  qed
qed

lemma string_fields_known: "f \<in> set string_fields \<Longrightarrow> f \<in> set Trade_fields"
  by (auto simp: string_fields_def Trade_fields_def)

lemma sort_step_strings:
  assumes "lstrip_dash k \<in> set string_fields"
  shows "\<exists>ys. sort_step base xs k = Inr ys"
proof -
  have "keys_of base xs (lstrip_dash k) = Inr (map (attr (lstrip_dash k)) xs)"
    using assms by (simp add: keys_of_known string_fields_known)
  moreover have "list_all is_str (map (attr (lstrip_dash k)) xs)"
    using assms by (auto simp: string_fields_def attr_def field_value_def list_all_iff)
  ultimately show ?thesis by (simp add: sort_step_def sorted_by_def Let_def)
qed

lemma sort_loop_strings:
  "\<forall>k\<in>set ks. lstrip_dash k \<in> set string_fields \<Longrightarrow> \<exists>ys. sort_loop base xs ks = Inr ys"
proof (induction ks arbitrary: xs)
  case Nil
  then show ?case by simp
next
  case (Cons k ks)
  then obtain zs where "sort_step base xs k = Inr zs" using sort_step_strings [of k base xs] by auto
  with Cons show ?case by simp
qed

lemma py_slice_Nil: "py_slice [] a b = []"
  by (simp add: py_slice_def Let_def)

lemma paginate_Nil: "paginate [] p s = []"
  by (simp add: paginate_def Let_def py_slice_Nil)

lemma sorted_wrt_py_slice: "sorted_wrt P xs \<Longrightarrow> sorted_wrt P (py_slice xs a b)"
  by (simp add: py_slice_def Let_def sorted_wrt_take sorted_wrt_drop)

lemma ordered_by_paginate: "ordered_by k ys \<Longrightarrow> ordered_by k (paginate ys p s)"
  by (simp add: ordered_by_def stage_ordered_def paginate_def Let_def sorted_wrt_py_slice)

lemma list_trades_store: "snd (list_trades base db rq) = db"
  by (simp add: list_trades_def split: sum.splits)

lemma list_trades_sorted:
  "filtered_trades db rq = Inr xs \<Longrightarrow>
   fst (list_trades base db rq)
     = (case sort_loop base xs (req_sort_by rq) of
          Inl e \<Rightarrow> Inl e
        | Inr ys \<Rightarrow> Inr (paginate ys (req_page rq) (req_page_size rq)))"
  by (simp add: list_trades_def sorted_trades_def split: sum.splits)

lemmas pipeline_defs =
  list_trades_def sorted_trades_def filtered_trades_def base_set_def search_stage_def
  default_request_def filter_trades_def filter_cond_def py_and_def narrow_def sort_step_def
  sorted_by_def getattr_def field_value_def lstrip_dash_def py_sorted_def attr_def paginate_def
  py_slice_def sample_base_def

lemma filtered_abc:
  "filtered_trades db_abc (default_request\<lparr>req_sort_by := ks\<rparr>) = Inr [trade_a, trade_b, trade_c]"
  by (simp add: filtered_trades_def base_set_def search_stage_def default_request_def
     filter_trades_def filter_cond_def py_and_def narrow_def db_abc_def TradeDB_init_def
     add_trade_def)

text \<open>
  \<^bold>\<open>C5.\<close> For a request whose \<^verbatim>\<open>sort_by\<close> is the list \<open>ks @ [k]\<close>, with \<open>xs\<close> the
  trades that passed the filters, the endpoint sorts by \<open>ks\<close>, sorts what that gave by
  \<open>k\<close>, and returns the page of the result; a fault of a sort ends the request. When the
  last key names a field of \<^verbatim>\<open>Trade\<close>, the last sort alone fixes the final order: what
  it returns is a rearrangement of its input that is ordered by the last key (descending
  for a key with a dash), and it is stable, so that the trades with one and the same
  value of the last key stand as the earlier sorts left them; the returned page is in
  that order. Keys that name the required string fields always sort.
\<close>

theorem sort_by_several_keys:
  assumes "filtered_trades db rq = Inr xs" and "req_sort_by rq = ks @ [k]"
  shows "fst (list_trades base db rq)
           = (case sort_loop base xs ks of
                Inl e \<Rightarrow> Inl e
              | Inr zs \<Rightarrow>
                  (case sort_step base zs k of
                     Inl e \<Rightarrow> Inl e
                   | Inr ys \<Rightarrow> Inr (paginate ys (req_page rq) (req_page_size rq))))
       \<and> (\<forall>zs ys. sort_loop base xs ks = Inr zs \<and> sort_step base zs k = Inr ys
                 \<and> lstrip_dash k \<in> set Trade_fields \<longrightarrow>
             fst (list_trades base db rq) = Inr (paginate ys (req_page rq) (req_page_size rq))
           \<and> mset ys = mset zs
           \<and> ordered_by k ys
           \<and> ordered_by k (paginate ys (req_page rq) (req_page_size rq))
           \<and> (\<forall>v. filter (\<lambda>t. attr (lstrip_dash k) t = v) ys
                  = filter (\<lambda>t. attr (lstrip_dash k) t = v) zs))
       \<and> ((\<forall>f\<in>set (ks @ [k]). lstrip_dash f \<in> set string_fields) \<longrightarrow>
             (\<exists>ys. fst (list_trades base db rq)
                      = Inr (paginate ys (req_page rq) (req_page_size rq))
                  \<and> mset ys = mset xs \<and> ordered_by k ys))"
proof -
  have main: "fst (list_trades base db rq)
           = (case sort_loop base xs ks of
                Inl e \<Rightarrow> Inl e
              | Inr zs \<Rightarrow>
                  (case sort_step base zs k of
                     Inl e \<Rightarrow> Inl e
                   | Inr ys \<Rightarrow> Inr (paginate ys (req_page rq) (req_page_size rq))))"
    using assms by (simp add: list_trades_sorted sort_loop_snoc split: sum.splits)
  have last: "\<forall>zs ys. sort_loop base xs ks = Inr zs \<and> sort_step base zs k = Inr ys
                 \<and> lstrip_dash k \<in> set Trade_fields \<longrightarrow>
             fst (list_trades base db rq) = Inr (paginate ys (req_page rq) (req_page_size rq))
           \<and> mset ys = mset zs
           \<and> ordered_by k ys
           \<and> ordered_by k (paginate ys (req_page rq) (req_page_size rq))
           \<and> (\<forall>v. filter (\<lambda>t. attr (lstrip_dash k) t = v) ys
                  = filter (\<lambda>t. attr (lstrip_dash k) t = v) zs)"
  proof (intro allI impI)
    fix zs ys
    assume a: "sort_loop base xs ks = Inr zs \<and> sort_step base zs k = Inr ys
                 \<and> lstrip_dash k \<in> set Trade_fields"
    then have st: "sort_step base zs k = Inr ys" and fld: "lstrip_dash k \<in> set Trade_fields"
      by simp_all
    have r: "fst (list_trades base db rq) = Inr (paginate ys (req_page rq) (req_page_size rq))"
      using main a by simp
    have m: "mset ys = mset zs" using sort_step_Inr [OF st fld] by blast
    have ob: "ordered_by k ys" using sort_step_Inr [OF st fld] by blast
    have stable: "\<forall>v. filter (\<lambda>t. attr (lstrip_dash k) t = v) ys
                  = filter (\<lambda>t. attr (lstrip_dash k) t = v) zs"
      using sort_step_Inr [OF st fld] by blast
    from r m ob ordered_by_paginate [OF ob] stable
    show "fst (list_trades base db rq) = Inr (paginate ys (req_page rq) (req_page_size rq))
           \<and> mset ys = mset zs
           \<and> ordered_by k ys
           \<and> ordered_by k (paginate ys (req_page rq) (req_page_size rq))
           \<and> (\<forall>v. filter (\<lambda>t. attr (lstrip_dash k) t = v) ys
                  = filter (\<lambda>t. attr (lstrip_dash k) t = v) zs)"
      by blast
  qed
  have strings: "(\<forall>f\<in>set (ks @ [k]). lstrip_dash f \<in> set string_fields) \<longrightarrow>
             (\<exists>ys. fst (list_trades base db rq)
                      = Inr (paginate ys (req_page rq) (req_page_size rq))
                  \<and> mset ys = mset xs \<and> ordered_by k ys)"
  proof
    assume s: "\<forall>f\<in>set (ks @ [k]). lstrip_dash f \<in> set string_fields"
    then have sk: "\<forall>f\<in>set ks. lstrip_dash f \<in> set string_fields" by simp
    from s have fk: "lstrip_dash k \<in> set Trade_fields" by (simp add: string_fields_known)
    from sk have fks: "\<forall>f\<in>set ks. lstrip_dash f \<in> set Trade_fields"
      by (simp add: string_fields_known)
    from sort_loop_strings [OF sk] obtain zs where zs: "sort_loop base xs ks = Inr zs" by blast
    from s sort_step_strings [of k base zs] obtain ys where ys: "sort_step base zs k = Inr ys"
      by auto
    have "mset zs = mset xs" using sort_loop_fields [OF fks, of base xs] zs by blast
    moreover have "mset ys = mset zs \<and> ordered_by k ys" using sort_step_Inr [OF ys fk] by blast
    moreover have "fst (list_trades base db rq)
        = Inr (paginate ys (req_page rq) (req_page_size rq))"
      using main zs ys by simp
    ultimately show "\<exists>ys. fst (list_trades base db rq)
                      = Inr (paginate ys (req_page rq) (req_page_size rq))
                  \<and> mset ys = mset xs \<and> ordered_by k ys"
      by auto
  qed
  from main last strings show ?thesis by blast
qed

theorem sort_by_several_keys_witness:
  "filtered_trades db_abc (default_request\<lparr>req_sort_by := [''instrument_id''] @ [''trader'']\<rparr>)
     = Inr [trade_a, trade_b, trade_c]
   \<and> req_sort_by (default_request\<lparr>req_sort_by := [''instrument_id''] @ [''trader'']\<rparr>)
     = [''instrument_id''] @ [''trader'']
   \<and> lstrip_dash ''instrument_id'' \<in> set string_fields
   \<and> lstrip_dash ''trader'' \<in> set string_fields
   \<and> lstrip_dash ''trader'' \<in> set Trade_fields
   \<and> sort_loop sample_base [trade_a, trade_b, trade_c] [''instrument_id'']
       = Inr [trade_c, trade_b, trade_a]
   \<and> sort_step sample_base [trade_c, trade_b, trade_a] ''trader'' = Inr [trade_b, trade_c, trade_a]
   \<and> fst (list_trades sample_base db_abc
        (default_request\<lparr>req_sort_by := [''instrument_id''] @ [''trader'']\<rparr>))
       = Inr [trade_b, trade_c, trade_a]
   \<and> ordered_by ''trader'' [trade_b, trade_c, trade_a]"
proof -
  let ?rq = "default_request\<lparr>req_sort_by := [''instrument_id''] @ [''trader'']\<rparr>"
  have f: "filtered_trades db_abc ?rq = Inr [trade_a, trade_b, trade_c]" by (rule filtered_abc)
  have q: "req_sort_by ?rq = [''instrument_id''] @ [''trader'']" by simp
  have n: "lstrip_dash ''instrument_id'' \<in> set string_fields
      \<and> lstrip_dash ''trader'' \<in> set string_fields \<and> lstrip_dash ''trader'' \<in> set Trade_fields"
    by (simp add: lstrip_dash_def string_fields_def Trade_fields_def)
  have s1: "sort_loop sample_base [trade_a, trade_b, trade_c] [''instrument_id'']
      = Inr [trade_c, trade_b, trade_a]"
    by (simp add: sort_step_def sorted_by_def getattr_def field_value_def lstrip_dash_def
        py_sorted_def attr_def trade_a_def trade_b_def trade_c_def)
  have s2: "sort_step sample_base [trade_c, trade_b, trade_a] ''trader''
      = Inr [trade_b, trade_c, trade_a]"
    by (simp add: sort_step_def sorted_by_def getattr_def field_value_def lstrip_dash_def
        py_sorted_def attr_def trade_a_def trade_b_def trade_c_def)
  have p: "paginate [trade_b, trade_c, trade_a] (req_page ?rq) (req_page_size ?rq)
      = [trade_b, trade_c, trade_a]"
    by (simp add: default_request_def paginate_def py_slice_def)
  from sort_by_several_keys [OF f q, of sample_base] s1 s2 n
  have "fst (list_trades sample_base db_abc ?rq)
        = Inr (paginate [trade_b, trade_c, trade_a] (req_page ?rq) (req_page_size ?rq))
      \<and> ordered_by ''trader'' [trade_b, trade_c, trade_a]"
    by blast
  with p have "fst (list_trades sample_base db_abc ?rq) = Inr [trade_b, trade_c, trade_a]
      \<and> ordered_by ''trader'' [trade_b, trade_c, trade_a]"
    by simp
  with f q n s1 s2 show ?thesis by blast
qed

subsection \<open>The list endpoint\<close>

text \<open>The sample base class at work: a sort by \<^verbatim>\<open>__module__\<close> returns, a sort by
  \<^verbatim>\<open>model_dump\<close> ends in a \<^verbatim>\<open>TypeError\<close>.\<close>

lemma sort_by_inherited_attribute:
  "fst (list_trades sample_base db_abc (default_request\<lparr>req_sort_by := [''__module__'']\<rparr>))
     = Inr [trade_a, trade_b, trade_c]
   \<and> fst (list_trades sample_base db_abc (default_request\<lparr>req_sort_by := [''model_dump'']\<rparr>))
     = Inl TypeError"
  by (simp add: pipeline_defs sample_defs)

text \<open>Timestamps of two kinds: the default sort of a store that holds a naive and an
  aware timestamp ends in a \<^verbatim>\<open>TypeError\<close>, and so does a filter with an aware bound
  on naive timestamps.\<close>

lemma timestamps_of_two_kinds:
  "fst (list_trades sample_base db_w default_request) = Inl TypeError
   \<and> fst (list_trades sample_base db_abc (default_request\<lparr>req_start := Some (Aware 0)\<rparr>))
       = Inl TypeError"
  by (simp add: pipeline_defs sample_defs)

text \<open>
  \<^bold>\<open>C2 (as the code has it).\<close> The sort resolves a key with \<^verbatim>\<open>getattr\<close> and there
  is no check of the names. Let the \<^verbatim>\<open>sort_by\<close> of a request hold, after the keys
  \<open>ks\<close>, a key whose name is no attribute of a \<^verbatim>\<open>Trade\<close> object, neither a declared
  field nor an attribute of the base class. The store is left as it was. A fault of the
  stages before the sort, or of the sort by one of the keys \<open>ks\<close>, ends the request.
  Otherwise, when the sorts by \<open>ks\<close> hand on at least one trade, the request ends in the
  \<^verbatim>\<open>AttributeError\<close> for that name, a fault of the runtime; this is the case when a
  trade reaches the sort and the keys \<open>ks\<close> name declared fields, unless one of their sorts
  ends in a \<^verbatim>\<open>TypeError\<close>. When no trade reaches the sort, no attribute is read, the key
  is passed over and the empty sequence is returned.
\<close>

theorem unknown_sort_field:
  assumes "req_sort_by rq = ks @ k # later"
    and "lstrip_dash k \<notin> set Trade_fields" and "base (lstrip_dash k) = None"
  shows "snd (list_trades base db rq) = db
     \<and> (\<forall>e. filtered_trades db rq = Inl e \<longrightarrow> fst (list_trades base db rq) = Inl e)
     \<and> (\<forall>xs e. filtered_trades db rq = Inr xs \<and> sort_loop base xs ks = Inl e \<longrightarrow>
           fst (list_trades base db rq) = Inl e)
     \<and> (\<forall>xs zs. filtered_trades db rq = Inr xs \<and> sort_loop base xs ks = Inr zs \<and> zs \<noteq> [] \<longrightarrow>
           fst (list_trades base db rq) = Inl (AttributeError (lstrip_dash k)))
     \<and> (\<forall>xs. filtered_trades db rq = Inr xs \<and> xs \<noteq> []
               \<and> (\<forall>f\<in>set ks. lstrip_dash f \<in> set Trade_fields) \<longrightarrow>
           fst (list_trades base db rq) = Inl (AttributeError (lstrip_dash k))
           \<or> fst (list_trades base db rq) = Inl TypeError)
     \<and> (filtered_trades db rq = Inr [] \<longrightarrow> fst (list_trades base db rq) = Inr [])"
proof -
  have loop: "\<And>xs. sort_loop base xs (req_sort_by rq)
      = (case sort_loop base xs ks of
           Inl e \<Rightarrow> Inl e
         | Inr zs \<Rightarrow> sort_loop base zs (k # later))"
    by (simp only: assms(1) sort_loop_append)
  have a: "snd (list_trades base db rq) = db" by (rule list_trades_store)
  have b: "\<forall>e. filtered_trades db rq = Inl e \<longrightarrow> fst (list_trades base db rq) = Inl e"
    by (simp add: list_trades_def sorted_trades_def)
  have c: "\<forall>xs e. filtered_trades db rq = Inr xs \<and> sort_loop base xs ks = Inl e \<longrightarrow>
           fst (list_trades base db rq) = Inl e"
    by (simp add: list_trades_sorted loop)
  have d: "\<forall>xs zs. filtered_trades db rq = Inr xs \<and> sort_loop base xs ks = Inr zs \<and> zs \<noteq> [] \<longrightarrow>
           fst (list_trades base db rq) = Inl (AttributeError (lstrip_dash k))"
    by (simp add: list_trades_sorted loop sort_step_unknown [of k base, OF assms(2) assms(3)])
  have e: "\<forall>xs. filtered_trades db rq = Inr xs \<and> xs \<noteq> []
               \<and> (\<forall>f\<in>set ks. lstrip_dash f \<in> set Trade_fields) \<longrightarrow>
           fst (list_trades base db rq) = Inl (AttributeError (lstrip_dash k))
           \<or> fst (list_trades base db rq) = Inl TypeError"
  proof (intro allI impI)
    fix xs
    assume h: "filtered_trades db rq = Inr xs \<and> xs \<noteq> []
               \<and> (\<forall>f\<in>set ks. lstrip_dash f \<in> set Trade_fields)"
    then have fl: "\<forall>f\<in>set ks. lstrip_dash f \<in> set Trade_fields" by simp
    show "fst (list_trades base db rq) = Inl (AttributeError (lstrip_dash k))
           \<or> fst (list_trades base db rq) = Inl TypeError"
    proof (cases "sort_loop base xs ks")
      case (Inl err)
      then have "err = TypeError" using sort_loop_fields [OF fl, of base xs] by blast
      with Inl h c show ?thesis by simp
    next
      case (Inr zs)
      then have "mset zs = mset xs" using sort_loop_fields [OF fl, of base xs] by blast
      with h have "zs \<noteq> []" by auto
      with Inr h d show ?thesis by blast
    qed
  qed
  have f: "filtered_trades db rq = Inr [] \<longrightarrow> fst (list_trades base db rq) = Inr []"
    by (simp add: list_trades_sorted sort_loop_Nil paginate_Nil)
  from a b c d e f show ?thesis by blast
qed

theorem unknown_sort_field_witness:
  "req_sort_by (default_request\<lparr>req_sort_by := [''trader''] @ ''nonexistent_field'' # []\<rparr>)
     = [''trader''] @ ''nonexistent_field'' # []
   \<and> lstrip_dash ''nonexistent_field'' \<notin> set Trade_fields
   \<and> sample_base (lstrip_dash ''nonexistent_field'') = None
   \<and> lstrip_dash ''trader'' \<in> set Trade_fields
   \<and> filtered_trades db_abc
        (default_request\<lparr>req_sort_by := [''trader''] @ ''nonexistent_field'' # []\<rparr>)
       = Inr [trade_a, trade_b, trade_c]
   \<and> sort_loop sample_base [trade_a, trade_b, trade_c] [''trader'']
       = Inr [trade_b, trade_a, trade_c]
   \<and> list_trades sample_base db_abc
        (default_request\<lparr>req_sort_by := [''trader''] @ ''nonexistent_field'' # []\<rparr>)
       = (Inl (AttributeError ''nonexistent_field''), db_abc)"
proof -
  let ?rq = "default_request\<lparr>req_sort_by := [''trader''] @ ''nonexistent_field'' # []\<rparr>"
  have q: "req_sort_by ?rq = [''trader''] @ ''nonexistent_field'' # []" by simp
  have u: "lstrip_dash ''nonexistent_field'' \<notin> set Trade_fields"
    by (simp add: lstrip_dash_def Trade_fields_def)
  have n: "sample_base (lstrip_dash ''nonexistent_field'') = None"
    by (simp add: lstrip_dash_def sample_base_def)
  have t: "lstrip_dash ''trader'' \<in> set Trade_fields"
    by (simp add: lstrip_dash_def Trade_fields_def)
  have f: "filtered_trades db_abc ?rq = Inr [trade_a, trade_b, trade_c]" by (rule filtered_abc)
  have s: "sort_loop sample_base [trade_a, trade_b, trade_c] [''trader'']
      = Inr [trade_b, trade_a, trade_c]"
    by (simp add: sort_step_def sorted_by_def getattr_def field_value_def lstrip_dash_def
        py_sorted_def attr_def trade_a_def trade_b_def trade_c_def)
  from unknown_sort_field
    [of ?rq "[''trader'']" "''nonexistent_field''" "[]" sample_base db_abc] q u n f s
  have "snd (list_trades sample_base db_abc ?rq) = db_abc
      \<and> fst (list_trades sample_base db_abc ?rq)
          = Inl (AttributeError (lstrip_dash ''nonexistent_field''))"
    by blast
  then have "list_trades sample_base db_abc ?rq = (Inl (AttributeError ''nonexistent_field''), db_abc)"
    by (simp add: lstrip_dash_def prod_eq_iff)
  with q u n t f s show ?thesis by blast
qed

text \<open>The unknown key ends the request in an \<^verbatim>\<open>AttributeError\<close> when trades reach the
  sort, and is passed over in silence when none does.\<close>

theorem unknown_sort_field_counterexample:
  "fst (list_trades sample_base db_abc (default_request\<lparr>req_sort_by := [''nonexistent_field'']\<rparr>))
     = Inl (AttributeError ''nonexistent_field'')
   \<and> fst (list_trades sample_base db_abc
        (default_request\<lparr>req_sort_by := [''nonexistent_field''], req_trader := Some ''Nobody''\<rparr>))
     = Inr []"
  by (simp add: pipeline_defs sample_defs)

text \<open>
  \<^bold>\<open>C6 (as the code has it).\<close> The price is a field of \<^verbatim>\<open>trade_details\<close>; a
  \<^verbatim>\<open>Trade\<close> object has no attribute \<^verbatim>\<open>price\<close>, neither as a declared field nor from
  the base class. So a request with \<^verbatim>\<open>sort_by=["-price"]\<close> ends in the
  \<^verbatim>\<open>AttributeError\<close> for \<^verbatim>\<open>price\<close> whenever a trade reaches the sort, a fault of the
  stages before the sort ends it as well, and the only sequence that such a request
  ever returns is the empty one.
\<close>

theorem sort_by_price_descending:
  assumes "req_sort_by rq = [''-price'']" and "base ''price'' = None"
  shows "(\<forall>xs. filtered_trades db rq = Inr xs \<and> xs \<noteq> [] \<longrightarrow>
            fst (list_trades base db rq) = Inl (AttributeError ''price''))
       \<and> (\<forall>e. filtered_trades db rq = Inl e \<longrightarrow> fst (list_trades base db rq) = Inl e)
       \<and> (\<forall>ys. fst (list_trades base db rq) = Inr ys \<longrightarrow> ys = [])"
proof -
  have u: "lstrip_dash ''-price'' \<notin> set Trade_fields"
    by (simp add: lstrip_dash_def Trade_fields_def)
  have n: "base (lstrip_dash ''-price'') = None" using assms(2) by (simp add: lstrip_dash_def)
  have a: "\<forall>xs. filtered_trades db rq = Inr xs \<and> xs \<noteq> [] \<longrightarrow>
            fst (list_trades base db rq) = Inl (AttributeError ''price'')"
  proof (intro allI impI)
    fix xs assume h: "filtered_trades db rq = Inr xs \<and> xs \<noteq> []"
    then have "sort_step base xs ''-price'' = Inl (AttributeError (lstrip_dash ''-price''))"
      using sort_step_unknown [of "''-price''" base, OF u n] by blast
    with h show "fst (list_trades base db rq) = Inl (AttributeError ''price'')"
      by (simp add: list_trades_sorted assms(1) lstrip_dash_def)
  qed
  have b: "\<forall>e. filtered_trades db rq = Inl e \<longrightarrow> fst (list_trades base db rq) = Inl e"
    by (simp add: list_trades_def sorted_trades_def)
  have c: "\<forall>ys. fst (list_trades base db rq) = Inr ys \<longrightarrow> ys = []"
  proof (intro allI impI)
    fix ys assume r: "fst (list_trades base db rq) = Inr ys"
    show "ys = []"
    proof (cases "filtered_trades db rq")
      case (Inl e)
      with b r show ?thesis by simp
    next
      case (Inr xs)
      show ?thesis
      proof (cases "xs = []")
        case True
        with Inr r sort_loop_Nil [of base "req_sort_by rq"] show ?thesis
          by (simp add: list_trades_sorted paginate_Nil)
      next
        case False
        with Inr a r show ?thesis by simp
      qed
    qed
  qed
  from a b c show ?thesis by blast
qed

theorem sort_by_price_descending_witness:
  "req_sort_by (default_request\<lparr>req_sort_by := [''-price'']\<rparr>) = [''-price'']
   \<and> sample_base ''price'' = None
   \<and> filtered_trades db_abc (default_request\<lparr>req_sort_by := [''-price'']\<rparr>)
       = Inr [trade_a, trade_b, trade_c]
   \<and> [trade_a, trade_b, trade_c] \<noteq> []
   \<and> fst (list_trades sample_base db_abc (default_request\<lparr>req_sort_by := [''-price'']\<rparr>))
       = Inl (AttributeError ''price'')"
proof -
  let ?rq = "default_request\<lparr>req_sort_by := [''-price'']\<rparr>"
  have q: "req_sort_by ?rq = [''-price'']" by simp
  have n: "sample_base ''price'' = None" by (simp add: sample_base_def)
  have f: "filtered_trades db_abc ?rq = Inr [trade_a, trade_b, trade_c]" by (rule filtered_abc)
  from sort_by_price_descending [of ?rq sample_base db_abc] q n f
  have "fst (list_trades sample_base db_abc ?rq) = Inl (AttributeError ''price'')" by blast
  with q n f show ?thesis by blast
qed

text \<open>Sorting three stored trades by \<^verbatim>\<open>-price\<close> returns no sequence.\<close>

theorem sort_by_price_counterexample:
  "fst (list_trades sample_base db_abc (default_request\<lparr>req_sort_by := [''-price'']\<rparr>))
     = Inl (AttributeError ''price'')"
  by (simp add: pipeline_defs sample_defs)

lemma nat_pred: "nat (int n - 1) = n - Suc 0"
  by arith

lemma sorted_trades_page:
  "sorted_trades base db (rq\<lparr>req_page := p, req_page_size := s\<rparr>) = sorted_trades base db rq"
  by (simp add: sorted_trades_def filtered_trades_def base_set_def search_stage_def narrow_def
      cong: sum.case_cong option.case_cong)

text \<open>
  \<^bold>\<open>C4 (as the code has it).\<close> The page parameters are integers without a lower bound
  and nothing checks them. A request with \<open>page < 1\<close> or \<open>page_size < 1\<close> fails exactly
  when the stages before the pagination fail, which does not depend on the page
  parameters; otherwise it returns the Python slice
  \<^verbatim>\<open>sorted_trades[(page-1)*page_size : (page-1)*page_size + page_size]\<close>, whose negative
  bounds count from the end: the empty sequence for \<open>page_size = 0\<close> and for \<open>page = 0\<close>
  with \<open>page_size \<ge> 0\<close>, all but the last trade for \<open>page = 1\<close> with \<open>page_size = -1\<close>.
\<close>

theorem page_parameters_unchecked:
  assumes "req_page rq < 1 \<or> req_page_size rq < 1"
  shows "(\<forall>e. fst (list_trades base db rq) = Inl e \<longleftrightarrow> sorted_trades base db rq = Inl e)
     \<and> (\<forall>e p s. fst (list_trades base db rq) = Inl e
           \<longleftrightarrow> fst (list_trades base db (rq\<lparr>req_page := p, req_page_size := s\<rparr>)) = Inl e)
     \<and> (\<forall>xs. sorted_trades base db rq = Inr xs \<longrightarrow>
           fst (list_trades base db rq)
             = Inr (py_slice xs ((req_page rq - 1) * req_page_size rq)
                      ((req_page rq - 1) * req_page_size rq + req_page_size rq)))
     \<and> (\<forall>xs. sorted_trades base db rq = Inr xs \<and> req_page_size rq = 0 \<longrightarrow>
           fst (list_trades base db rq) = Inr [])
     \<and> (\<forall>xs. sorted_trades base db rq = Inr xs \<and> req_page rq = 0 \<and> 0 \<le> req_page_size rq \<longrightarrow>
           fst (list_trades base db rq) = Inr [])
     \<and> (\<forall>xs. sorted_trades base db rq = Inr xs \<and> req_page rq = 1 \<and> req_page_size rq = - 1 \<longrightarrow>
           fst (list_trades base db rq) = Inr (butlast xs))"
proof -
  have fail: "\<And>rq e. fst (list_trades base db rq) = Inl e \<longleftrightarrow> sorted_trades base db rq = Inl e"
    by (simp add: list_trades_def split: sum.splits)
  have a: "\<forall>e. fst (list_trades base db rq) = Inl e \<longleftrightarrow> sorted_trades base db rq = Inl e"
    using fail by blast
  have b: "\<forall>e p s. fst (list_trades base db rq) = Inl e
           \<longleftrightarrow> fst (list_trades base db (rq\<lparr>req_page := p, req_page_size := s\<rparr>)) = Inl e"
    by (simp only: fail sorted_trades_page) simp
  have c: "\<forall>xs. sorted_trades base db rq = Inr xs \<longrightarrow>
           fst (list_trades base db rq)
             = Inr (py_slice xs ((req_page rq - 1) * req_page_size rq)
                      ((req_page rq - 1) * req_page_size rq + req_page_size rq))"
    by (simp add: list_trades_def paginate_def Let_def)
  have d: "\<forall>xs. sorted_trades base db rq = Inr xs \<and> req_page_size rq = 0 \<longrightarrow>
           fst (list_trades base db rq) = Inr []"
    by (simp add: list_trades_def paginate_def Let_def py_slice_def)
  have e: "\<forall>xs. sorted_trades base db rq = Inr xs \<and> req_page rq = 0 \<and> 0 \<le> req_page_size rq \<longrightarrow>
           fst (list_trades base db rq) = Inr []"
    by (auto simp: list_trades_def paginate_def Let_def py_slice_def)
  have f: "\<forall>xs. sorted_trades base db rq = Inr xs \<and> req_page rq = 1 \<and> req_page_size rq = - 1 \<longrightarrow>
           fst (list_trades base db rq) = Inr (butlast xs)"
    by (auto simp: list_trades_def paginate_def Let_def py_slice_def butlast_conv_take nat_pred)
  from a b c d e f show ?thesis by blast
qed

theorem page_parameters_unchecked_witness:
  "(req_page (default_request\<lparr>req_page := 0\<rparr>) < 1
      \<or> req_page_size (default_request\<lparr>req_page := 0\<rparr>) < 1)
   \<and> sorted_trades sample_base db_abc (default_request\<lparr>req_page := 0\<rparr>)
       = Inr [trade_a, trade_c, trade_b]
   \<and> fst (list_trades sample_base db_abc (default_request\<lparr>req_page := 0\<rparr>)) = Inr []"
proof -
  let ?rq = "default_request\<lparr>req_page := 0\<rparr>"
  have h: "req_page ?rq < 1 \<or> req_page_size ?rq < 1" by simp
  have s: "sorted_trades sample_base db_abc ?rq = Inr [trade_a, trade_c, trade_b]"
    by (simp add: pipeline_defs sample_defs)
  have p: "req_page ?rq = 0 \<and> 0 \<le> req_page_size ?rq" by (simp add: default_request_def)
  from page_parameters_unchecked [OF h, of sample_base db_abc] s p
  have "fst (list_trades sample_base db_abc ?rq) = Inr []" by blast
  with h s show ?thesis by blast
qed

text \<open>Requests with page 0, with page size -1 and with page -1 are answered.\<close>

theorem page_parameters_counterexample:
  "fst (list_trades sample_base db_abc (default_request\<lparr>req_page := 0\<rparr>)) = Inr []
   \<and> fst (list_trades sample_base db_abc (default_request\<lparr>req_page_size := - 1\<rparr>))
       = Inr [trade_a, trade_c]
   \<and> fst (list_trades sample_base db_abc (default_request\<lparr>req_page := - 1, req_page_size := 1\<rparr>))
       = Inr [trade_c]"
  by (simp add: pipeline_defs sample_defs)

subsection \<open>Search and filter\<close>

lemma startswith_iff: "startswith b a \<longleftrightarrow> (\<exists>after. b = a @ after)"
  by (induction b a rule: startswith.induct) auto

lemma str_in_iff: "str_in a b \<longleftrightarrow> substring a b"
proof (induction b)
  case Nil
  then show ?case by (auto simp: substring_def)
next
  case (Cons d b)
  have "substring a (d # b) \<longleftrightarrow> (\<exists>after. d # b = a @ after) \<or> substring a b"
  proof
    assume "substring a (d # b)"
    then obtain p s where ps: "d # b = p @ a @ s" by (auto simp: substring_def)
    show "(\<exists>after. d # b = a @ after) \<or> substring a b"
    proof (cases p)
      case Nil
      with ps show ?thesis by auto
    next
      case (Cons c p')
      with ps have "b = p' @ a @ s" by simp
      then show ?thesis by (auto simp: substring_def)
    qed
  next
    assume "(\<exists>after. d # b = a @ after) \<or> substring a b"
    then show "substring a (d # b)"
    proof
      assume "\<exists>after. d # b = a @ after"
      then obtain s where "d # b = [] @ a @ s" by auto
      then show ?thesis unfolding substring_def by blast
    next
      assume "substring a b"
      then obtain p s where "b = p @ a @ s" by (auto simp: substring_def)
      then have "d # b = (d # p) @ a @ s" by simp
      then show ?thesis unfolding substring_def by blast
    qed
  qed
  with Cons show ?case by (simp add: startswith_iff)
qed

lemma substring_length: "substring a b \<Longrightarrow> length a \<le> length b"
  by (auto simp: substring_def)

lemma longer_not_substring: "length b < length a \<Longrightarrow> \<not> substring a b"
  using substring_length [of a b] by auto

lemma length_lower: "length (lower s) = length s"
  by (simp add: lower_def)

lemma lower_accented: "lower [CHR ''T'', CHR 0xC9, CHR 0xD7, CHR ''x''] = [CHR ''t'', CHR 0xE9, CHR 0xD7, CHR ''x'']"
  by (simp add: lower_def char_lower_def upper_case_def lower_case_def)

lemma collect_total:
  "\<forall>t\<in>set xs. cond t = Inr (p t) \<Longrightarrow> collect cond xs acc = Inr (acc @ filter p xs)"
  by (induction xs arbitrary: acc) auto

lemma collect_Inl: "collect cond xs acc = Inl e \<Longrightarrow> \<exists>t\<in>set xs. cond t = Inl e"
  by (induction xs arbitrary: acc) (auto split: sum.splits)

lemma collect_fails:
  "t \<in> set xs \<Longrightarrow> cond t = Inl e \<Longrightarrow> \<exists>e'. collect cond xs acc = Inl e'"
  by (induction xs arbitrary: acc) (auto split: sum.splits)

lemma search_cond_Inl:
  "search_cond ql t = Inl e \<longleftrightarrow>
     e = AttributeError ''lower'' \<and> counterparty t = None
     \<and> \<not> substring ql (lower (instrument_id t)) \<and> \<not> substring ql (lower (instrument_name t))"
  by (auto simp: search_cond_def opt_lower_def str_in_iff split: option.splits)

lemma search_cond_present:
  "counterparty t \<noteq> None \<Longrightarrow> search_cond (lower text) t = Inr (spec_match text t)"
  by (auto simp: search_cond_def opt_lower_def spec_match_def str_in_iff)

lemma search_trades_present:
  assumes "\<forall>t\<in>set (trades db). counterparty t \<noteq> None"
  shows "search_trades db text = Inr (filter (spec_match text) (trades db))"
proof -
  have "\<forall>t\<in>set (trades db). search_cond (lower text) t = Inr (spec_match text t)"
    using assms by (simp add: search_cond_present)
  from collect_total [OF this, of "[]"] show ?thesis by (simp add: search_trades_def)
qed

lemma search_trades_Inl:
  "search_trades db text = Inl e \<longleftrightarrow>
     e = AttributeError ''lower''
     \<and> (\<exists>t\<in>set (trades db). counterparty t = None
           \<and> \<not> substring (lower text) (lower (instrument_id t))
           \<and> \<not> substring (lower text) (lower (instrument_name t)))"
proof
  assume "search_trades db text = Inl e"
  then obtain t where "t \<in> set (trades db)" "search_cond (lower text) t = Inl e"
    using collect_Inl by (fastforce simp: search_trades_def)
  then show "e = AttributeError ''lower''
     \<and> (\<exists>t\<in>set (trades db). counterparty t = None
           \<and> \<not> substring (lower text) (lower (instrument_id t))
           \<and> \<not> substring (lower text) (lower (instrument_name t)))"
    by (auto simp: search_cond_Inl)
next
  assume a: "e = AttributeError ''lower''
     \<and> (\<exists>t\<in>set (trades db). counterparty t = None
           \<and> \<not> substring (lower text) (lower (instrument_id t))
           \<and> \<not> substring (lower text) (lower (instrument_name t)))"
  then obtain t where t: "t \<in> set (trades db)" "search_cond (lower text) t = Inl e"
    by (auto simp: search_cond_Inl)
  from collect_fails [of t "trades db" "search_cond (lower text)" e "[]"] t
  obtain e' where e': "search_trades db text = Inl e'"
    by (auto simp: search_trades_def)
  then obtain t' where "search_cond (lower text) t' = Inl e'"
    using collect_Inl by (fastforce simp: search_trades_def)
  then have "e' = AttributeError ''lower''" by (simp add: search_cond_Inl)
  with e' a show "search_trades db text = Inl e" by simp
qed

lemma search_cond_Inr: "search_cond (lower text) t = Inr b \<Longrightarrow> b = spec_match text t"
  by (auto simp: search_cond_def opt_lower_def spec_match_def str_in_iff
      split: if_splits option.splits)

lemma collect_Inr:
  "collect cond xs acc = Inr r \<Longrightarrow> (\<forall>t\<in>set xs. \<forall>b. cond t = Inr b \<longrightarrow> b = p t) \<Longrightarrow>
   r = acc @ filter p xs"
proof (induction xs arbitrary: acc)
  case Nil
  then show ?case by simp
next
  case (Cons t xs)
  from Cons.prems(1) obtain b where b: "cond t = Inr b"
    "collect cond xs (if b then acc @ [t] else acc) = Inr r"
    by (auto split: sum.splits)
  from b(1) Cons.prems(2) have "b = p t" by simp
  moreover from Cons.IH [OF b(2)] Cons.prems(2)
  have "r = (if b then acc @ [t] else acc) @ filter p xs" by simp
  ultimately show ?case by simp
qed

lemma search_trades_Inr:
  assumes "search_trades db text = Inr r"
  shows "r = filter (spec_match text) (trades db)"
  using collect_Inr [of "search_cond (lower text)" "trades db" "[]" r "spec_match text"] assms
  by (simp add: search_trades_def search_cond_Inr)

text \<open>
  \<^bold>\<open>C10 (as the code has it).\<close> \<^verbatim>\<open>search_trades\<close> lower-cases the optional
  counterparty without a test for \<^verbatim>\<open>None\<close>, but only for the trades that the
  instrument id and the instrument name did not already match: the call raises the
  \<^verbatim>\<open>AttributeError\<close> exactly when some stored trade has no counterparty and the text is
  a substring of neither its instrument id nor its instrument name (compared in lower
  case), and it raises nothing else. Whenever the call returns, it returns the matching
  trades in the order of the store, and it does return when every stored trade has a
  counterparty; the search returns for every text if and only if every stored trade has
  a counterparty.
\<close>

theorem search_partial:
  "(search_trades db text = Inl (AttributeError ''lower'') \<longleftrightarrow>
      (\<exists>t\<in>set (trades db). counterparty t = None
           \<and> \<not> substring (lower text) (lower (instrument_id t))
           \<and> \<not> substring (lower text) (lower (instrument_name t))))
   \<and> (\<forall>e. search_trades db text = Inl e \<longrightarrow> e = AttributeError ''lower'')
   \<and> (\<forall>r. search_trades db text = Inr r \<longrightarrow> r = filter (spec_match text) (trades db))
   \<and> ((\<forall>t\<in>set (trades db). counterparty t \<noteq> None) \<longrightarrow>
        search_trades db text = Inr (filter (spec_match text) (trades db)))
   \<and> ((\<forall>q. \<exists>r. search_trades db q = Inr r) \<longleftrightarrow> (\<forall>t\<in>set (trades db). counterparty t \<noteq> None))"
proof (intro conjI)
  show "search_trades db text = Inl (AttributeError ''lower'') \<longleftrightarrow>
      (\<exists>t\<in>set (trades db). counterparty t = None
           \<and> \<not> substring (lower text) (lower (instrument_id t))
           \<and> \<not> substring (lower text) (lower (instrument_name t)))"
    by (simp add: search_trades_Inl)
  show "\<forall>e. search_trades db text = Inl e \<longrightarrow> e = AttributeError ''lower''"
    by (simp add: search_trades_Inl)
  show "\<forall>r. search_trades db text = Inr r \<longrightarrow> r = filter (spec_match text) (trades db)"
    using search_trades_Inr by blast
  show "(\<forall>t\<in>set (trades db). counterparty t \<noteq> None) \<longrightarrow>
        search_trades db text = Inr (filter (spec_match text) (trades db))"
    using search_trades_present by blast
  show "(\<forall>q. \<exists>r. search_trades db q = Inr r) \<longleftrightarrow> (\<forall>t\<in>set (trades db). counterparty t \<noteq> None)"
  proof
    assume tot: "\<forall>q. \<exists>r. search_trades db q = Inr r"
    show "\<forall>t\<in>set (trades db). counterparty t \<noteq> None"
    proof (rule ccontr)
      assume "\<not> (\<forall>t\<in>set (trades db). counterparty t \<noteq> None)"
      then obtain t where t: "t \<in> set (trades db)" "counterparty t = None" by blast
      let ?q = "instrument_id t @ instrument_name t @ ''x''"
      have "\<not> substring (lower ?q) (lower (instrument_id t))"
        by (rule longer_not_substring) (simp add: length_lower)
      moreover have "\<not> substring (lower ?q) (lower (instrument_name t))"
        by (rule longer_not_substring) (simp add: length_lower)
      ultimately have "search_trades db ?q = Inl (AttributeError ''lower'')"
        using t by (auto simp: search_trades_Inl)
      with tot show False by (metis sum.distinct(1))
    qed
  next
    assume "\<forall>t\<in>set (trades db). counterparty t \<noteq> None"
    then show "\<forall>q. \<exists>r. search_trades db q = Inr r"
      using search_trades_present by blast
  qed
qed

lemmas search_defs =
  search_trades_def search_cond_def opt_lower_def lower_def char_lower_def upper_case_def
  lower_case_def

theorem search_partial_witness:
  "trade_n \<in> set (trades db_n) \<and> counterparty trade_n = None
   \<and> search_trades db_n ''ann'' = Inl (AttributeError ''lower'')
   \<and> counterparty trade_a \<noteq> None \<and> counterparty trade_b \<noteq> None \<and> counterparty trade_c \<noteq> None
   \<and> search_trades db_abc ''GOLD'' = Inr (filter (spec_match ''GOLD'') (trades db_abc))
   \<and> search_trades db_abc ''GOLD'' = Inr [trade_b]"
proof -
  have n: "trade_n \<in> set (trades db_n) \<and> counterparty trade_n = None"
    by (simp add: sample_defs)
  have e: "search_trades db_n ''ann'' = Inl (AttributeError ''lower'')"
    by (simp add: search_defs sample_defs)
  have p: "\<forall>t\<in>set (trades db_abc). counterparty t \<noteq> None"
    by (simp add: sample_defs)
  from search_partial [of db_abc "''GOLD''"] p
  have f: "search_trades db_abc ''GOLD'' = Inr (filter (spec_match ''GOLD'') (trades db_abc))"
    by blast
  have g: "search_trades db_abc ''GOLD'' = Inr [trade_b]"
    by (simp add: search_defs sample_defs)
  from n e f g show ?thesis by (simp add: trade_a_def trade_b_def trade_c_def)
qed

text \<open>A store that holds a trade without counterparty, searched without a fault.\<close>

theorem search_short_circuit_counterexample:
  "trade_n \<in> set (trades db_n) \<and> counterparty trade_n = None
   \<and> search_trades db_n ''Goog'' = Inr [trade_n]
   \<and> search_trades db_n '''' = Inr [trade_a, trade_n]"
  by (simp add: search_defs sample_defs)

text \<open>
  \<^bold>\<open>C8 (the code at the failing input).\<close> The store holds a trade without counterparty
  whose trader, ``Ann Lee'', contains the text ``ann''; the instrument id and name do not.
  The search should return that trade; it raises instead, because the counterparty is
  lower-cased before the trader is looked at.
\<close>

theorem search_absent_counterparty_fault:
  "trade_n \<in> set (trades db_n) \<and> counterparty trade_n = None
   \<and> str_in (lower ''ann'') (lower (trader trade_n))
   \<and> search_trades db_n ''ann'' = Inl (AttributeError ''lower'')"
  by (simp add: search_defs sample_defs)


lemma filter_trades_no_parameters:
  "filter_trades db None None None None None None = Inr (trades db)"
proof -
  have "\<forall>t\<in>set (trades db). filter_cond None None None None None None t = Inr ((\<lambda>t. True) t)"
    by (simp add: filter_cond_def py_and_def)
  from collect_total [OF this, of "[]"] show ?thesis by (simp add: filter_trades_def)
qed

lemma filter_overrides_search:
  assumes "search_stage db rq = Inr searched"
  shows "base_set db rq
    = filter_trades db (map_option AcStr (req_asset_classes rq)) (req_start rq) (req_end rq)
        (req_min_price rq) (req_max_price rq) (req_trade_type rq)"
  using assms by (simp add: base_set_def)

lemma search_without_effect:
  assumes "\<forall>t\<in>set (trades db). counterparty t \<noteq> None"
  shows "list_trades base db rq = list_trades base db (rq\<lparr>req_search := None\<rparr>)"
proof -
  have "\<exists>searched. search_stage db rq = Inr searched"
    using search_trades_present [OF assms]
    by (simp add: search_stage_def split: option.splits)
  then have "base_set db rq = base_set db (rq\<lparr>req_search := None\<rparr>)"
    by (auto simp: base_set_def search_stage_def)
  moreover have "narrow (rq\<lparr>req_search := None\<rparr>) = narrow rq"
    by (simp add: narrow_def fun_eq_iff)
  ultimately have "sorted_trades base db rq = sorted_trades base db (rq\<lparr>req_search := None\<rparr>)"
    by (simp add: sorted_trades_def filtered_trades_def cong: sum.case_cong)
  then show ?thesis by (simp add: list_trades_def cong: sum.case_cong)
qed

text \<open>
  \<^bold>\<open>C1 (the code at the failing input).\<close> The filter call overrides the search result
  whenever the search returns (\<open>filter_overrides_search\<close>, \<open>search_without_effect\<close>), but
  the search runs first: on the store with a trade without counterparty the request with
  the search text ``ann'' and no filter parameter ends in the fault of the search, while
  the filter alone gives the full store.
\<close>

theorem search_fault_before_filter:
  "trade_n \<in> set (trades db_n) \<and> counterparty trade_n = None
   \<and> base_set db_n (default_request\<lparr>req_search := Some ''ann''\<rparr>) = Inl (AttributeError ''lower'')
   \<and> fst (list_trades base db_n (default_request\<lparr>req_search := Some ''ann''\<rparr>))
       = Inl (AttributeError ''lower'')
   \<and> filter_trades db_n None None None None None None = Inr [trade_a, trade_n]"
  by (simp add: list_trades_def sorted_trades_def filtered_trades_def base_set_def
      search_stage_def default_request_def filter_trades_def filter_cond_def py_and_def
      search_defs sample_defs)

end
